theory Spec2Isabelle
  imports Complex_Main
begin

section \<open>Python values used by models.py\<close>

text \<open>
  A Python \<^verbatim>\<open>str\<close> is a sequence of Unicode code points, and \<^verbatim>\<open>len\<close> and slicing count
  code points; a string is therefore a list of code points, and an ASCII literal of the
  source is written \<open>ustr ''...''\<close>.
\<close>

type_synonym pystr = "nat list"

definition ustr :: "string \<Rightarrow> pystr" where
  "ustr s = map of_char s"

text \<open>\<^verbatim>\<open>str(n)\<close> and \<^verbatim>\<open>f"{n}"\<close> for an integer \<open>n\<close>.\<close>

fun str_nat :: "nat \<Rightarrow> pystr" where
  "str_nat n = (if n < 10 then [48 + n] else str_nat (n div 10) @ [48 + n mod 10])"

definition str_int :: "int \<Rightarrow> pystr" where
  "str_int i = (if i < 0 then 45 # str_nat (nat (- i)) else str_nat (nat i))"

text \<open>\<^verbatim>\<open>sep.join(xs)\<close>.\<close>

fun join :: "pystr \<Rightarrow> pystr list \<Rightarrow> pystr" where
  "join sep [] = []"
| "join sep [x] = x"
| "join sep (x # y # ys) = x @ sep @ join sep (y # ys)"

text \<open>\<^verbatim>\<open>p in s\<close> for two strings: \<open>p\<close> occurs in \<open>s\<close> as a contiguous run.\<close>

fun starts :: "'a list \<Rightarrow> 'a list \<Rightarrow> bool" where
  "starts [] s = True"
| "starts (p # ps) [] = False"
| "starts (p # ps) (c # cs) = (p = c \<and> starts ps cs)"

primrec str_in :: "'a list \<Rightarrow> 'a list \<Rightarrow> bool" where
  "str_in p [] = (p = [])"
| "str_in p (c # cs) = (starts p (c # cs) \<or> str_in p cs)"

text \<open>\<^verbatim>\<open>xs[-n:]\<close> for a positive literal \<open>n\<close>: the last \<open>n\<close> elements, all of them when
  there are fewer.\<close>

definition slice_last :: "nat \<Rightarrow> 'a list \<Rightarrow> 'a list" where
  "slice_last n xs = drop (length xs - n) xs"

text \<open>
  \<^verbatim>\<open>str.lower\<close> is a table over all of Unicode; the functions that call it take it as the
  parameter \<open>lower\<close>. \<open>ascii_lower\<close> is what it does on ASCII text.
\<close>

definition ascii_lower :: "pystr \<Rightarrow> pystr" where
  "ascii_lower s = map (\<lambda>c. if 65 \<le> c \<and> c \<le> 90 then c + 32 else c) s"

text \<open>The value \<^verbatim>\<open>response.json()\<close> returns. A dict keeps its items as an association
  list, looked up with \<open>map_of\<close>. Python floats are idealised as reals (no rounding, no
  overflow).\<close>

datatype json =
    JNull
  | JBool bool
  | JInt int
  | JFloat real
  | JStr pystr
  | JArr "json list"
  | JObj "(pystr \<times> json) list"

text \<open>The exceptions the code distinguishes, all of them subclasses of \<^verbatim>\<open>Exception\<close>.
  \<open>HTTPStatusError\<close> carries \<^verbatim>\<open>e.response.status_code\<close> and \<^verbatim>\<open>e.response.text\<close>; the last
  argument of each is \<^verbatim>\<open>str(e)\<close>; \<open>TimeoutException\<close> and \<open>PyException\<close> carry the name of
  the concrete class first.\<close>

datatype exn =
    HTTPStatusError int pystr pystr
  | TimeoutException pystr pystr
  | ConnectError pystr
  | PyException pystr pystr

text \<open>What \<^verbatim>\<open>client.post\<close> returns when it returns: the status code, \<^verbatim>\<open>response.text\<close>,
  what \<^verbatim>\<open>response.json()\<close> does (the parsed body, or the exception it raises), and the
  message httpx gives the \<open>HTTPStatusError\<close> of this response.\<close>

record response =
  status_code :: int
  resp_text :: pystr
  resp_json :: "exn + json"
  resp_error :: pystr

fun type_name :: "exn \<Rightarrow> pystr" where
  "type_name (HTTPStatusError c t m) = ustr ''HTTPStatusError''"
| "type_name (TimeoutException n m) = n"
| "type_name (ConnectError m) = ustr ''ConnectError''"
| "type_name (PyException n m) = n"

fun str_exn :: "exn \<Rightarrow> pystr" where
  "str_exn (HTTPStatusError c t m) = m"
| "str_exn (TimeoutException n m) = m"
| "str_exn (ConnectError m) = m"
| "str_exn (PyException n m) = m"

definition KeyError :: "pystr \<Rightarrow> exn" where
  "KeyError m = PyException (ustr ''KeyError'') m"

definition IndexError :: "pystr \<Rightarrow> exn" where
  "IndexError m = PyException (ustr ''IndexError'') m"

definition TypeError :: "pystr \<Rightarrow> exn" where
  "TypeError m = PyException (ustr ''TypeError'') m"

definition AttributeError :: "pystr \<Rightarrow> exn" where
  "AttributeError m = PyException (ustr ''AttributeError'') m"

definition ValueError :: "pystr \<Rightarrow> exn" where
  "ValueError m = PyException (ustr ''ValueError'') m"

text \<open>Sequencing of steps that may raise: the first exception ends the block.\<close>

definition bind_exn :: "exn + 'a \<Rightarrow> ('a \<Rightarrow> exn + 'b) \<Rightarrow> exn + 'b" where
  "bind_exn m f = (case m of Inl e \<Rightarrow> Inl e | Inr v \<Rightarrow> f v)"

fun py_type :: "json \<Rightarrow> pystr" where
  "py_type JNull = ustr ''NoneType''"
| "py_type (JBool b) = ustr ''bool''"
| "py_type (JInt i) = ustr ''int''"
| "py_type (JFloat r) = ustr ''float''"
| "py_type (JStr s) = ustr ''str''"
| "py_type (JArr xs) = ustr ''list''"
| "py_type (JObj kvs) = ustr ''dict''"

text \<open>Truth value of a JSON value, as \<^verbatim>\<open>not usage\<close> tests it.\<close>

fun truthy :: "json \<Rightarrow> bool" where
  "truthy JNull = False"
| "truthy (JBool b) = b"
| "truthy (JInt i) = (i \<noteq> 0)"
| "truthy (JFloat r) = (r \<noteq> 0)"
| "truthy (JStr s) = (s \<noteq> [])"
| "truthy (JArr xs) = (xs \<noteq> [])"
| "truthy (JObj kvs) = (kvs \<noteq> [])"

text \<open>\<^verbatim>\<open>v[k]\<close> for a string key \<open>k\<close> (a literal of the source, so \<^verbatim>\<open>repr(k)\<close> is \<open>k\<close> in
  single quotes), with CPython's exception for every kind of value.\<close>

fun subscript_key :: "json \<Rightarrow> pystr \<Rightarrow> exn + json" where
  "subscript_key (JObj kvs) k =
     (case map_of kvs k of
        None \<Rightarrow> Inl (KeyError ([39] @ k @ [39]))
      | Some v \<Rightarrow> Inr v)"
| "subscript_key (JArr xs) k =
     Inl (TypeError (ustr ''list indices must be integers or slices, not str''))"
| "subscript_key (JStr s) k =
     Inl (TypeError (ustr ''string indices must be integers, not '' @ [39] @ ustr ''str'' @ [39]))"
| "subscript_key v k =
     Inl (TypeError ([39] @ py_type v @ [39] @ ustr '' object is not subscriptable''))"

text \<open>\<^verbatim>\<open>v[0]\<close>. The keys of a parsed JSON object are strings, so \<open>0\<close> is never one.\<close>

fun subscript_zero :: "json \<Rightarrow> exn + json" where
  "subscript_zero (JArr []) = Inl (IndexError (ustr ''list index out of range''))"
| "subscript_zero (JArr (x # xs)) = Inr x"
| "subscript_zero (JStr []) = Inl (IndexError (ustr ''string index out of range''))"
| "subscript_zero (JStr (c # cs)) = Inr (JStr [c])"
| "subscript_zero (JObj kvs) = Inl (KeyError (ustr ''0''))"
| "subscript_zero v =
     Inl (TypeError ([39] @ py_type v @ [39] @ ustr '' object is not subscriptable''))"

text \<open>\<^verbatim>\<open>v.get(k, default)\<close>: only a dict has the method.\<close>

fun dict_get :: "json \<Rightarrow> pystr \<Rightarrow> json \<Rightarrow> exn + json" where
  "dict_get (JObj kvs) k d = Inr (case map_of kvs k of None \<Rightarrow> d | Some v \<Rightarrow> v)"
| "dict_get v k d =
     Inl (AttributeError ([39] @ py_type v @ [39] @ ustr '' object has no attribute ''
            @ [39] @ ustr ''get'' @ [39]))"

text \<open>\<^verbatim>\<open>v / 1000\<close>: true division of a number (a bool is an int) by an int.\<close>

fun div_1000 :: "json \<Rightarrow> exn + real" where
  "div_1000 (JInt i) = Inr (real_of_int i / 1000)"
| "div_1000 (JFloat r) = Inr (r / 1000)"
| "div_1000 (JBool b) = Inr ((if b then 1 else 0) / 1000)"
| "div_1000 v =
     Inl (TypeError (ustr ''unsupported operand type(s) for /: '' @ [39] @ py_type v @ [39]
            @ ustr '' and '' @ [39] @ ustr ''int'' @ [39]))"

section \<open>The config module\<close>

text \<open>
  \<^verbatim>\<open>config.py\<close> is imported by models.py: its constants and \<^verbatim>\<open>get_fallback_models\<close> are
  parameters of the model. An entry of \<^verbatim>\<open>MODELS\<close> is a dict; \<open>timeout\<close> and
  \<open>cost_per_1k_tokens\<close> are read with \<^verbatim>\<open>.get\<close> and may be absent.
\<close>

record model_config =
  name :: pystr
  provider :: pystr
  base_url :: pystr
  model_id :: pystr
  api_key :: pystr
  enabled :: bool
  timeout :: "int option"
  cost_per_1k_tokens :: "real option"

record config =
  MODELS :: "pystr \<rightharpoonup> model_config"
  DEFAULT_TEMPERATURE :: real
  DEFAULT_MAX_TOKENS :: int
  RETRY_ATTEMPTS :: int
  RETRY_MIN_WAIT :: real
  RETRY_MAX_WAIT :: real
  RETRY_STATUS_CODES :: "int list"
  get_fallback_models :: "pystr \<Rightarrow> pystr list"

text \<open>An entry of the diagnostics log.\<close>

record entry =
  e_timestamp :: pystr
  e_model :: pystr
  e_error_type :: pystr
  e_details :: pystr
  e_status_code :: "int option"

section \<open>The world outside the code\<close>

text \<open>
  Everything the code does to the outside is an event of one trace, in the order it
  happens: a request sent, a backoff sleep, a line printed to stderr. The outside answers
  through \<open>env\<close>: \<open>post\<close> is what \<^verbatim>\<open>client.post\<close> does with a request (it raises, or it
  returns a response) and \<open>now\<close> is \<^verbatim>\<open>datetime.now().isoformat()\<close>; both may depend on
  all that happened before. \<open>lower\<close> is \<^verbatim>\<open>str.lower\<close> and \<open>repr_list\<close> is how an f-string
  prints a list of strings.
\<close>

record request =
  rq_timeout :: int
  rq_url :: pystr
  rq_headers :: "(pystr \<times> pystr) list"
  rq_model :: pystr
  rq_messages :: "(pystr \<times> pystr) list"
  rq_temperature :: real
  rq_max_tokens :: int

datatype event = Post request | Sleep real | Stderr pystr

record env =
  post :: "event list \<Rightarrow> request \<Rightarrow> exn + response"
  now :: "event list \<Rightarrow> pystr"
  lower :: "pystr \<Rightarrow> pystr"
  repr_list :: "pystr list \<Rightarrow> pystr"

text \<open>A \<^verbatim>\<open>ModelProvider\<close> object: \<open>p_id\<close> is its identity.\<close>

record ModelProvider =
  p_id :: nat
  p_config :: model_config
  p_model_key :: pystr

text \<open>The state of the process: the module's \<^verbatim>\<open>_error_log\<close>, the \<^verbatim>\<open>_providers\<close> dict of the
  one \<^verbatim>\<open>ModelManager\<close>, the number of provider objects made so far, and the trace.\<close>

record world =
  error_log :: "entry list"
  providers :: "pystr \<rightharpoonup> ModelProvider"
  next_id :: nat
  trace :: "event list"

section \<open>The diagnostics log\<close>

definition log_error :: "env \<Rightarrow> pystr \<Rightarrow> pystr \<Rightarrow> pystr \<Rightarrow> int option \<Rightarrow> world \<Rightarrow> world" where
  "log_error env model error_type details status w =
     (let ent = \<lparr>e_timestamp = now env (trace w),
                 e_model = model,
                 e_error_type = error_type,
                 e_details = take 500 details,
                 e_status_code = status\<rparr>;
          log1 = error_log w @ [ent];
          log2 = (if length log1 > 50 then tl log1 else log1)
      in w\<lparr>error_log := log2,
            trace := trace w @ [Stderr (ustr ''[ARGUS ERROR] '' @ model @ ustr '': '' @ error_type
                                         @ ustr '' - '' @ take 200 details)]\<rparr>)"

definition get_error_log :: "world \<Rightarrow> entry list" where
  "get_error_log w = error_log w"

definition clear_error_log :: "world \<Rightarrow> world" where
  "clear_error_log w = w\<lparr>error_log := []\<rparr>"

text \<open>The two lines \<^verbatim>\<open>format_error_for_user\<close> appends for one entry. \<^verbatim>\<open>err.get('status_code')\<close>
  is false for \<^verbatim>\<open>None\<close> and for \<open>0\<close>.\<close>

definition entry_lines :: "entry \<Rightarrow> pystr list" where
  "entry_lines err =
     (let status = (case e_status_code err of
                      None \<Rightarrow> []
                    | Some c \<Rightarrow> if c \<noteq> 0 then ustr '' (HTTP '' @ str_int c @ ustr '')'' else [])
      in [ustr ''- **'' @ e_model err @ ustr ''**: '' @ e_error_type err @ status,
          ustr ''  - '' @ take 150 (e_details err)])"

definition format_error_lines :: "(pystr \<Rightarrow> pystr) \<Rightarrow> entry list \<Rightarrow> pystr list" where
  "format_error_lines lower_fn errors =
     (let lines0 = [ustr ''## Recent Errors'' @ [10]];
          lines1 = fold (\<lambda>err ls. ls @ entry_lines err) (slice_last 5 errors) lines0;
          lines2 = lines1 @ [[10] @ ustr ''## Possible Causes'' @ [10]];
          has_401 = list_ex (\<lambda>e. e_status_code e = Some 401) errors;
          has_429 = list_ex (\<lambda>e. e_status_code e = Some 429) errors;
          has_timeout = list_ex (\<lambda>e. str_in (ustr ''timeout'') (lower_fn (e_details e))) errors;
          has_connection = list_ex (\<lambda>e. str_in (ustr ''connect'') (lower_fn (e_details e))) errors;
          lines3 = (if has_401
                    then lines2 @ [ustr ''- **Invalid API Key**: Check your `.env` file. Keys may be expired or incorrect.'']
                    else lines2);
          lines4 = (if has_429
                    then lines3 @ [ustr ''- **Rate Limited**: You've hit the API rate limit. Wait a few minutes.'']
                    else lines3);
          lines5 = (if has_timeout
                    then lines4 @ [ustr ''- **Timeout**: API is slow or overloaded. Try again later or reduce payload size.'']
                    else lines4);
          lines6 = (if has_connection
                    then lines5 @ [ustr ''- **Connection Error**: Network issue. Check your internet connection.'']
                    else lines5)
      in if \<not> (has_401 \<or> has_429 \<or> has_timeout \<or> has_connection)
         then lines6 @ [ustr ''- Check API provider status pages (z.ai, OpenRouter)'',
                        ustr ''- Verify API keys are valid and have credits'']
         else lines6)"

definition format_error_for_user :: "(pystr \<Rightarrow> pystr) \<Rightarrow> entry list \<Rightarrow> pystr" where
  "format_error_for_user lower_fn errors =
     (if errors = [] then ustr ''No errors recorded.''
      else join [10] (format_error_lines lower_fn errors))"

section \<open>ModelProvider\<close>

text \<open>\<^verbatim>\<open>ModelProvider.__init__\<close>, for the object with identity \<open>ident\<close>.\<close>

definition ModelProvider_init :: "config \<Rightarrow> pystr \<Rightarrow> nat \<Rightarrow> exn + ModelProvider" where
  "ModelProvider_init cfg model_key ident =
     (case MODELS cfg model_key of
        None \<Rightarrow> Inl (ValueError (ustr ''Unknown model: '' @ model_key))
      | Some c \<Rightarrow>
          if \<not> enabled c
          then Inl (ValueError (ustr ''Model '' @ model_key @ ustr '' is not enabled (missing API key)''))
          else Inr \<lparr>p_id = ident, p_config = c, p_model_key = model_key\<rparr>)"

text \<open>\<^verbatim>\<open>_call_api\<close>: one request. \<open>build_request\<close> is what it hands to \<^verbatim>\<open>client.post\<close>
  (timeout, URL, headers and the JSON body); \<open>read_response\<close> is what it does with the
  answer: \<^verbatim>\<open>raise_for_status\<close> raises for every status outside 200..299, and
  \<^verbatim>\<open>response.json()\<close> returns the body or raises.\<close>

definition build_request :: "ModelProvider \<Rightarrow> (pystr \<times> pystr) list \<Rightarrow> real \<Rightarrow> int \<Rightarrow> request" where
  "build_request self messages temperature max_tokens =
     (let c = p_config self;
          headers0 = [(ustr ''Authorization'', ustr ''Bearer '' @ api_key c),
                      (ustr ''Content-Type'', ustr ''application/json'')];
          headers = (if provider c = ustr ''openrouter''
                     then headers0 @ [(ustr ''HTTP-Referer'', ustr ''https://windsurf-mcp-verify-code''),
                                      (ustr ''X-Title'', ustr ''Windsurf Code Verifier'')]
                     else headers0)
      in \<lparr>rq_timeout = (case timeout c of None \<Rightarrow> 60 | Some t \<Rightarrow> t),
          rq_url = base_url c @ ustr ''/chat/completions'',
          rq_headers = headers,
          rq_model = model_id c,
          rq_messages = messages,
          rq_temperature = temperature,
          rq_max_tokens = max_tokens\<rparr>)"

definition read_response :: "exn + response \<Rightarrow> exn + json" where
  "read_response a =
     (case a of
        Inl e \<Rightarrow> Inl e
      | Inr r \<Rightarrow>
          if 200 \<le> status_code r \<and> status_code r \<le> 299
          then resp_json r
          else Inl (HTTPStatusError (status_code r) (resp_text r) (resp_error r)))"

definition call_api ::
  "env \<Rightarrow> ModelProvider \<Rightarrow> (pystr \<times> pystr) list \<Rightarrow> real \<Rightarrow> int \<Rightarrow> world \<Rightarrow> (exn + json) \<times> world" where
  "call_api env self messages temperature max_tokens w =
     (let rq = build_request self messages temperature max_tokens
      in (read_response (post env (trace w) rq), w\<lparr>trace := trace w @ [Post rq]\<rparr>))"

definition sleep :: "real \<Rightarrow> world \<Rightarrow> world" where
  "sleep d w = w\<lparr>trace := trace w @ [Sleep d]\<rparr>"

text \<open>The backoff after attempt \<open>attempt\<close>.\<close>

definition wait_time :: "config \<Rightarrow> nat \<Rightarrow> real" where
  "wait_time cfg attempt = min (RETRY_MIN_WAIT cfg * 2 ^ attempt) (RETRY_MAX_WAIT cfg)"

text \<open>
  The loop of \<^verbatim>\<open>_call_api_with_retry\<close>, at iteration \<open>attempt\<close> with \<open>k\<close> iterations of
  \<^verbatim>\<open>range(RETRY_ATTEMPTS)\<close> left. When the range is used up the code runs
  \<^verbatim>\<open>raise last_error\<close>, a \<open>TypeError\<close> when \<open>last_error\<close> is still \<^verbatim>\<open>None\<close>.
\<close>

fun retry_loop ::
  "config \<Rightarrow> env \<Rightarrow> ModelProvider \<Rightarrow> (pystr \<times> pystr) list \<Rightarrow> real \<Rightarrow> int \<Rightarrow>
   nat \<Rightarrow> nat \<Rightarrow> exn option \<Rightarrow> world \<Rightarrow> (exn + json) \<times> world" where
  "retry_loop cfg env self messages temperature max_tokens attempt 0 last_error w =
     (case last_error of
        None \<Rightarrow> (Inl (TypeError (ustr ''exceptions must derive from BaseException'')), w)
      | Some e \<Rightarrow> (Inl e, w))"
| "retry_loop cfg env self messages temperature max_tokens attempt (Suc k) last_error w =
     (case call_api env self messages temperature max_tokens w of
        (Inr result, w1) \<Rightarrow> (Inr result, w1)
      | (Inl e, w1) \<Rightarrow>
          (case e of
             HTTPStatusError code txt m \<Rightarrow>
               if code \<notin> set (RETRY_STATUS_CODES cfg) then (Inl e, w1)
               else retry_loop cfg env self messages temperature max_tokens (Suc attempt) k (Some e)
                      (if int attempt < RETRY_ATTEMPTS cfg - 1
                       then sleep (wait_time cfg attempt) w1
                       else w1)
           | _ \<Rightarrow> (Inl e, w1)))"

definition call_api_with_retry ::
  "config \<Rightarrow> env \<Rightarrow> ModelProvider \<Rightarrow> (pystr \<times> pystr) list \<Rightarrow> real \<Rightarrow> int \<Rightarrow> world \<Rightarrow> (exn + json) \<times> world" where
  "call_api_with_retry cfg env self messages temperature max_tokens w =
     retry_loop cfg env self messages temperature max_tokens 0 (nat (RETRY_ATTEMPTS cfg)) None w"

definition calculate_cost :: "ModelProvider \<Rightarrow> json \<Rightarrow> exn + real" where
  "calculate_cost self usage =
     (if \<not> truthy usage then Inr 0
      else bind_exn (dict_get usage (ustr ''total_tokens'') (JInt 0)) (\<lambda>total_tokens.
           let cost_per_1k = (case cost_per_1k_tokens (p_config self) of None \<Rightarrow> 0 | Some c \<Rightarrow> c)
           in bind_exn (div_1000 total_tokens) (\<lambda>q. Inr (q * cost_per_1k))))"

text \<open>The results of \<^verbatim>\<open>verify_code\<close>: the dict with \<^verbatim>\<open>"success": True\<close> and the one with
  \<^verbatim>\<open>"success": False\<close>. A key that a dict may lack is an option. \<open>pycode\<close> is a value of
  the key \<^verbatim>\<open>error_code\<close>: \<^verbatim>\<open>None\<close>, a status code or a string.\<close>

datatype pycode = NoneCode | IntCode int | StrCode pystr

record success_r =
  s_verdict :: json
  s_model :: pystr
  s_model_key :: pystr
  s_tokens_used :: json
  s_cost :: real
  s_fallback_used :: "bool option"
  s_primary_model_failed :: "pystr option"

record failure_r =
  f_error :: pystr
  f_error_code :: "pycode option"
  f_model :: pystr
  f_model_key :: pystr

datatype outcome = Success success_r | Failure failure_r

text \<open>\<^verbatim>\<open>data["choices"][0]["message"]["content"]\<close>.\<close>

definition extract_verdict :: "json \<Rightarrow> exn + json" where
  "extract_verdict data =
     bind_exn (subscript_key data (ustr ''choices'')) (\<lambda>choices.
     bind_exn (subscript_zero choices) (\<lambda>choice.
     bind_exn (subscript_key choice (ustr ''message'')) (\<lambda>message.
     subscript_key message (ustr ''content''))))"

text \<open>The \<^verbatim>\<open>try\<close> block of \<^verbatim>\<open>verify_code\<close>.\<close>

definition verify_code_try ::
  "config \<Rightarrow> env \<Rightarrow> ModelProvider \<Rightarrow> pystr \<Rightarrow> pystr \<Rightarrow> world \<Rightarrow> (exn + success_r) \<times> world" where
  "verify_code_try cfg env self system_prompt user_message w =
     (let messages = [(ustr ''system'', system_prompt), (ustr ''user'', user_message)]
      in case call_api_with_retry cfg env self messages (DEFAULT_TEMPERATURE cfg) (DEFAULT_MAX_TOKENS cfg) w of
           (Inl e, w1) \<Rightarrow> (Inl e, w1)
         | (Inr data, w1) \<Rightarrow>
             (bind_exn (extract_verdict data) (\<lambda>verdict.
              bind_exn (dict_get data (ustr ''usage'') (JObj [])) (\<lambda>usage.
              bind_exn (calculate_cost self usage) (\<lambda>cost.
                Inr \<lparr>s_verdict = verdict,
                     s_model = name (p_config self),
                     s_model_key = p_model_key self,
                     s_tokens_used = usage,
                     s_cost = cost,
                     s_fallback_used = None,
                     s_primary_model_failed = None\<rparr>))), w1))"

text \<open>\<^verbatim>\<open>verify_code\<close>: the block and its four handlers, in the order of the source.\<close>

definition verify_code ::
  "config \<Rightarrow> env \<Rightarrow> ModelProvider \<Rightarrow> pystr \<Rightarrow> pystr \<Rightarrow> world \<Rightarrow> outcome \<times> world" where
  "verify_code cfg env self system_prompt user_message w =
     (case verify_code_try cfg env self system_prompt user_message w of
        (Inr r, w1) \<Rightarrow> (Success r, w1)
      | (Inl e, w1) \<Rightarrow>
          (case e of
             HTTPStatusError code txt m \<Rightarrow>
               (let error_msg = ustr ''API Error: '' @ str_int code @ ustr '' - '' @ take 300 txt
                in (Failure \<lparr>f_error = error_msg,
                             f_error_code = Some (IntCode code),
                             f_model = name (p_config self),
                             f_model_key = p_model_key self\<rparr>,
                    log_error env (p_model_key self) (ustr ''HTTP Error'') error_msg (Some code) w1))
           | TimeoutException n m \<Rightarrow>
               (let error_msg = ustr ''Request timed out after ''
                      @ str_int (case timeout (p_config self) of None \<Rightarrow> 60 | Some t \<Rightarrow> t) @ ustr ''s''
                in (Failure \<lparr>f_error = error_msg,
                             f_error_code = Some (StrCode (ustr ''TIMEOUT'')),
                             f_model = name (p_config self),
                             f_model_key = p_model_key self\<rparr>,
                    log_error env (p_model_key self) (ustr ''Timeout'') error_msg None w1))
           | ConnectError m \<Rightarrow>
               (let error_msg = ustr ''Connection failed: '' @ m
                in (Failure \<lparr>f_error = error_msg,
                             f_error_code = Some (StrCode (ustr ''CONNECTION_ERROR'')),
                             f_model = name (p_config self),
                             f_model_key = p_model_key self\<rparr>,
                    log_error env (p_model_key self) (ustr ''Connection Error'') error_msg None w1))
           | PyException n m \<Rightarrow>
               (let error_msg = n @ ustr '': '' @ m
                in (Failure \<lparr>f_error = error_msg,
                             f_error_code = None,
                             f_model = name (p_config self),
                             f_model_key = p_model_key self\<rparr>,
                    log_error env (p_model_key self) n error_msg None w1))))"

section \<open>ModelManager\<close>

definition get_provider :: "config \<Rightarrow> pystr \<Rightarrow> world \<Rightarrow> (exn + ModelProvider) \<times> world" where
  "get_provider cfg model_key w =
     (case providers w model_key of
        Some p \<Rightarrow> (Inr p, w)
      | None \<Rightarrow>
          (case ModelProvider_init cfg model_key (next_id w) of
             Inl e \<Rightarrow> (Inl e, w)
           | Inr p \<Rightarrow> (Inr p, w\<lparr>providers := (providers w)(model_key \<mapsto> p),
                                next_id := Suc (next_id w)\<rparr>)))"

text \<open>An element of \<^verbatim>\<open>errors_collected\<close>. The handler of an exception leaves the key
  \<^verbatim>\<open>error_code\<close> out (\<open>None\<close> here); the branch of a failed result always sets it, to
  \<^verbatim>\<open>None\<close> when the result has no such key.\<close>

record collected =
  c_model :: pystr
  c_error :: pystr
  c_error_code :: "pycode option"

definition collect_exception :: "pystr \<Rightarrow> pystr \<Rightarrow> collected" where
  "collect_exception model_key error_msg =
     \<lparr>c_model = model_key, c_error = error_msg, c_error_code = None\<rparr>"

definition collect_failure :: "pystr \<Rightarrow> failure_r \<Rightarrow> collected" where
  "collect_failure model_key result =
     \<lparr>c_model = model_key,
      c_error = f_error result,
      c_error_code = Some (case f_error_code result of None \<Rightarrow> NoneCode | Some c \<Rightarrow> c)\<rparr>"

text \<open>The \<^verbatim>\<open>try\<close> statement for the primary model: the result to return, or the grown
  \<^verbatim>\<open>errors_collected\<close>. \<^verbatim>\<open>verify_code\<close> has handled every exception of its own block, so
  the handler here is reached from \<^verbatim>\<open>get_provider\<close> only.\<close>

definition try_primary ::
  "config \<Rightarrow> env \<Rightarrow> pystr \<Rightarrow> pystr \<Rightarrow> pystr \<Rightarrow> collected list \<Rightarrow> world \<Rightarrow> (success_r + collected list) \<times> world" where
  "try_primary cfg env system_prompt user_message primary_model errors_collected w =
     (case get_provider cfg primary_model w of
        (Inl e, w1) \<Rightarrow>
          (let error_msg = type_name e @ ustr '': '' @ str_exn e
           in (Inr (errors_collected @ [collect_exception primary_model error_msg]),
               log_error env primary_model (ustr ''Provider Error'') error_msg None w1))
      | (Inr p, w1) \<Rightarrow>
          (case verify_code cfg env p system_prompt user_message w1 of
             (Success result, w2) \<Rightarrow> (Inl result, w2)
           | (Failure result, w2) \<Rightarrow>
               (Inr (errors_collected @ [collect_failure primary_model result]), w2)))"

text \<open>The \<^verbatim>\<open>for\<close> loop over the fallback models.\<close>

fun fallback_loop ::
  "config \<Rightarrow> env \<Rightarrow> pystr \<Rightarrow> pystr \<Rightarrow> pystr \<Rightarrow> pystr list \<Rightarrow> collected list \<Rightarrow> world \<Rightarrow>
   (success_r + collected list) \<times> world" where
  "fallback_loop cfg env system_prompt user_message primary_model [] errors_collected w =
     (Inr errors_collected, w)"
| "fallback_loop cfg env system_prompt user_message primary_model (model_key # rest) errors_collected w =
     (case get_provider cfg model_key w of
        (Inl e, w1) \<Rightarrow>
          (let error_msg = type_name e @ ustr '': '' @ str_exn e
           in fallback_loop cfg env system_prompt user_message primary_model rest
                (errors_collected @ [collect_exception model_key error_msg])
                (log_error env model_key (ustr ''Provider Error'') error_msg None w1))
      | (Inr p, w1) \<Rightarrow>
          (case verify_code cfg env p system_prompt user_message w1 of
             (Success result, w2) \<Rightarrow>
               (Inl (result\<lparr>s_fallback_used := Some True,
                            s_primary_model_failed := Some primary_model\<rparr>), w2)
           | (Failure result, w2) \<Rightarrow>
               fallback_loop cfg env system_prompt user_message primary_model rest
                 (errors_collected @ [collect_failure model_key result]) w2))"

text \<open>The truth value of \<^verbatim>\<open>e.get("error_code")\<close>, and \<^verbatim>\<open>401 in error_codes\<close>.\<close>

fun code_truthy :: "pycode option \<Rightarrow> bool" where
  "code_truthy None = False"
| "code_truthy (Some NoneCode) = False"
| "code_truthy (Some (IntCode i)) = (i \<noteq> 0)"
| "code_truthy (Some (StrCode s)) = (s \<noteq> [])"

definition int_in_codes :: "int \<Rightarrow> pycode option list \<Rightarrow> bool" where
  "int_in_codes n codes = list_ex (\<lambda>c. c = Some (IntCode n)) codes"

definition hint_credential :: pystr where
  "hint_credential = [0x1F511] @ ustr '' Check API keys in `.env` file''"

definition hint_rate_limit :: pystr where
  "hint_rate_limit = [0x23F3] @ ustr '' Rate limited - wait a few minutes''"

definition hint_timeout :: pystr where
  "hint_timeout = [0x23F1, 0xFE0F] @ ustr '' Timeout - try smaller code or wait''"

definition hint_connection :: pystr where
  "hint_connection = [0x1F310] @ ustr '' Network error - check connection''"

definition hint_status :: pystr where
  "hint_status = [0x1F50D] @ ustr '' Check API provider status pages''"

definition hint_credits :: pystr where
  "hint_credits = [0x1F4B3] @ ustr '' Verify API keys have credits''"

definition recommend :: "env \<Rightarrow> collected list \<Rightarrow> pystr list" where
  "recommend env errors_collected =
     (let error_codes = filter code_truthy (map c_error_code errors_collected);
          error_texts = lower env (join (ustr '' '') (map c_error errors_collected));
          r1 = (if int_in_codes 401 error_codes then [hint_credential] else []);
          r2 = (if int_in_codes 429 error_codes then r1 @ [hint_rate_limit] else r1);
          r3 = (if str_in (ustr ''timeout'') error_texts then r2 @ [hint_timeout] else r2);
          r4 = (if str_in (ustr ''connect'') error_texts then r3 @ [hint_connection] else r3)
      in if r4 = [] then r4 @ [hint_status, hint_credits] else r4)"

text \<open>The dict returned when every model failed; its \<^verbatim>\<open>"model": "None"\<close> and
  \<^verbatim>\<open>"model_key": None\<close> are constants.\<close>

record all_failed_r =
  a_error :: pystr
  a_error_details :: pystr
  a_recommendations :: "pystr list"
  a_errors :: "collected list"

datatype fallback_result = Served success_r | AllFailed all_failed_r

definition all_failed :: "env \<Rightarrow> pystr \<Rightarrow> pystr list \<Rightarrow> collected list \<Rightarrow> all_failed_r" where
  "all_failed env primary_model fallback_models errors_collected =
     \<lparr>a_error = ustr ''All models failed. Primary: '' @ primary_model @ ustr '', Fallbacks: ''
                 @ repr_list env fallback_models,
      a_error_details = join [10] (map (\<lambda>e. ustr ''  - '' @ c_model e @ ustr '': '' @ take 100 (c_error e))
                                       errors_collected),
      a_recommendations = recommend env errors_collected,
      a_errors = errors_collected\<rparr>"

definition verify_with_fallback ::
  "config \<Rightarrow> env \<Rightarrow> pystr \<Rightarrow> pystr \<Rightarrow> pystr \<Rightarrow> world \<Rightarrow> fallback_result \<times> world" where
  "verify_with_fallback cfg env system_prompt user_message primary_model w =
     (case try_primary cfg env system_prompt user_message primary_model [] w of
        (Inl result, w1) \<Rightarrow> (Served result, w1)
      | (Inr errors_collected, w1) \<Rightarrow>
          (let fallback_models = get_fallback_models cfg primary_model
           in case fallback_loop cfg env system_prompt user_message primary_model
                     fallback_models errors_collected w1 of
                (Inl result, w2) \<Rightarrow> (Served result, w2)
              | (Inr errors_all, w2) \<Rightarrow>
                  (AllFailed (all_failed env primary_model fallback_models errors_all), w2)))"

section \<open>Observing a run\<close>

text \<open>The backoff waits and the requests of a trace, in order.\<close>

fun sleeps :: "event list \<Rightarrow> real list" where
  "sleeps [] = []"
| "sleeps (Sleep d # es) = d # sleeps es"
| "sleeps (e # es) = sleeps es"

fun posts :: "event list \<Rightarrow> request list" where
  "posts [] = []"
| "posts (Post rq # es) = rq # posts es"
| "posts (e # es) = posts es"

text \<open>An attempt fails retryably when it ends in an \<open>HTTPStatusError\<close> whose status code is
  in \<^verbatim>\<open>RETRY_STATUS_CODES\<close>; an exception is not retryable when it is anything else.\<close>

definition retryable :: "config \<Rightarrow> exn + json \<Rightarrow> bool" where
  "retryable cfg a =
     (case a of
        Inl (HTTPStatusError sc tx m) \<Rightarrow> sc \<in> set (RETRY_STATUS_CODES cfg)
      | _ \<Rightarrow> False)"

definition non_retryable :: "config \<Rightarrow> exn \<Rightarrow> bool" where
  "non_retryable cfg e =
     (case e of
        HTTPStatusError sc tx m \<Rightarrow> sc \<notin> set (RETRY_STATUS_CODES cfg)
      | _ \<Rightarrow> True)"

text \<open>The events of the \<open>n\<close> attempts \<open>a, ..., a + n - 1\<close> when each fails and is followed by
  its backoff wait.\<close>

definition failed_attempts :: "config \<Rightarrow> request \<Rightarrow> nat \<Rightarrow> nat \<Rightarrow> event list" where
  "failed_attempts cfg rq a n = concat (map (\<lambda>i. [Post rq, Sleep (wait_time cfg i)]) [a..<a + n])"

section \<open>A concrete configuration\<close>

definition demo_model :: model_config where
  "demo_model =
     \<lparr>name = ustr ''GLM'', provider = ustr ''zai'', base_url = ustr ''https://api.z.ai'',
      model_id = ustr ''glm-4'', api_key = ustr ''k'', enabled = True, timeout = None,
      cost_per_1k_tokens = Some 0.4\<rparr>"

definition demo_config :: config where
  "demo_config =
     \<lparr>MODELS = [ustr ''glm'' \<mapsto> demo_model],
      DEFAULT_TEMPERATURE = 0.1, DEFAULT_MAX_TOKENS = 4000, RETRY_ATTEMPTS = 3,
      RETRY_MIN_WAIT = 1, RETRY_MAX_WAIT = 10, RETRY_STATUS_CODES = [429, 500, 502, 503, 504],
      get_fallback_models = (\<lambda>k. [])\<rparr>"

definition demo_provider :: ModelProvider where
  "demo_provider = \<lparr>p_id = 0, p_config = demo_model, p_model_key = ustr ''glm''\<rparr>"

text \<open>An outside that answers every request with status \<open>sc\<close> and parsed body \<open>b\<close>.\<close>

definition answer_with :: "int \<Rightarrow> exn + json \<Rightarrow> env" where
  "answer_with sc b =
     \<lparr>post = (\<lambda>tr rq. Inr \<lparr>status_code = sc, resp_text = ustr ''body'', resp_json = b,
                            resp_error = ustr ''error''\<rparr>),
      now = (\<lambda>tr. ustr ''2025-01-01T00:00:00''),
      lower = ascii_lower,
      repr_list = (\<lambda>ks. ustr ''[]'')\<rparr>"

definition world0 :: world where
  "world0 = \<lparr>error_log = [], providers = Map.empty, next_id = 0, trace = []\<rparr>"

section \<open>Reading a result\<close>

text \<open>The two messages \<^verbatim>\<open>verify_code\<close> sends, and the number a JSON value stands for in
  arithmetic (a bool is an int).\<close>

definition request_messages :: "pystr \<Rightarrow> pystr \<Rightarrow> (pystr \<times> pystr) list" where
  "request_messages sp um = [(ustr ''system'', sp), (ustr ''user'', um)]"

definition json_number :: "json \<Rightarrow> real option" where
  "json_number v =
     (case v of
        JInt i \<Rightarrow> Some (real_of_int i)
      | JFloat r \<Rightarrow> Some r
      | JBool b \<Rightarrow> Some (if b then 1 else 0)
      | _ \<Rightarrow> None)"

text \<open>A well-formed answer with 2000 tokens used.\<close>

definition good_body :: json where
  "good_body =
     JObj [(ustr ''choices'',
              JArr [JObj [(ustr ''message'', JObj [(ustr ''content'', JStr (ustr ''ok''))])]]),
           (ustr ''usage'', JObj [(ustr ''total_tokens'', JInt 2000)])]"

text \<open>The exceptions that \<^verbatim>\<open>data["choices"][0]["message"]["content"]\<close> can raise.\<close>

definition shape_error :: "exn \<Rightarrow> bool" where
  "shape_error e = (\<exists>m. e = KeyError m \<or> e = IndexError m \<or> e = TypeError m)"

section \<open>The provider cache\<close>

text \<open>A model key is usable when \<^verbatim>\<open>MODELS\<close> knows it and its config is enabled. The cache of
  the manager is in order when every provider in it was made for its key from the config
  of a usable model, which is so at start and stays so.\<close>

definition cache_ok :: "config \<Rightarrow> world \<Rightarrow> bool" where
  "cache_ok cfg w =
     (\<forall>k p. providers w k = Some p \<longrightarrow>
        p_model_key p = k \<and> MODELS cfg k = Some (p_config p) \<and> enabled (p_config p))"

definition usable :: "config \<Rightarrow> pystr \<Rightarrow> bool" where
  "usable cfg k = (case MODELS cfg k of None \<Rightarrow> False | Some c \<Rightarrow> enabled c)"

section \<open>What the error report says\<close>

text \<open>The cause lines of \<^verbatim>\<open>format_error_for_user\<close> as the description of the report states
  them: each cause is looked for in every entry of the list given, and the two generic
  lines stand in when no cause is found.\<close>

definition line_401 :: pystr where
  "line_401 = ustr ''- **Invalid API Key**: Check your `.env` file. Keys may be expired or incorrect.''"
definition line_429 :: pystr where
  "line_429 = ustr ''- **Rate Limited**: You've hit the API rate limit. Wait a few minutes.''"
definition line_timeout :: pystr where
  "line_timeout = ustr ''- **Timeout**: API is slow or overloaded. Try again later or reduce payload size.''"
definition line_connection :: pystr where
  "line_connection = ustr ''- **Connection Error**: Network issue. Check your internet connection.''"

definition cause_lines :: "(pystr \<Rightarrow> pystr) \<Rightarrow> entry list \<Rightarrow> pystr list" where
  "cause_lines lower_fn errors =
     (let c401 = (\<exists>e\<in>set errors. e_status_code e = Some 401);
          c429 = (\<exists>e\<in>set errors. e_status_code e = Some 429);
          ctimeout = (\<exists>e\<in>set errors. str_in (ustr ''timeout'') (lower_fn (e_details e)));
          cconnect = (\<exists>e\<in>set errors. str_in (ustr ''connect'') (lower_fn (e_details e)))
      in (if c401 then [line_401] else [])
       @ (if c429 then [line_429] else [])
       @ (if ctimeout then [line_timeout] else [])
       @ (if cconnect then [line_connection] else [])
       @ (if c401 \<or> c429 \<or> ctimeout \<or> cconnect then []
          else [ustr ''- Check API provider status pages (z.ai, OpenRouter)'',
                ustr ''- Verify API keys are valid and have credits'']))"

text \<open>A short log entry.\<close>

definition demo_entry :: "pystr \<Rightarrow> int option \<Rightarrow> entry" where
  "demo_entry m sc = \<lparr>e_timestamp = [], e_model = m, e_error_type = ustr ''E'', e_details = ustr ''d'', e_status_code = sc\<rparr>"

section \<open>Sequences of log records, and the objects behind the log\<close>

text \<open>\<open>log_all\<close> records a sequence of errors, one \<^verbatim>\<open>log_error\<close> call each. \<open>entry_fields\<close> is
  an entry without its timestamp, and \<open>stored\<close> is what \<^verbatim>\<open>log_error\<close> keeps of its arguments.\<close>

fun log_all :: "env \<Rightarrow> (pystr \<times> pystr \<times> pystr \<times> int option) list \<Rightarrow> world \<Rightarrow> world" where
  "log_all env [] w = w"
| "log_all env ((model, error_type, details, status) # rest) w =
     log_all env rest (log_error env model error_type details status w)"

definition entry_fields :: "entry \<Rightarrow> pystr \<times> pystr \<times> pystr \<times> int option" where
  "entry_fields e = (e_model e, e_error_type e, e_details e, e_status_code e)"

definition stored :: "pystr \<times> pystr \<times> pystr \<times> int option \<Rightarrow> pystr \<times> pystr \<times> pystr \<times> int option" where
  "stored x = (case x of (model, error_type, details, status) \<Rightarrow> (model, error_type, take 500 details, status))"

text \<open>
  \<^verbatim>\<open>_error_log\<close> is a list object whose elements are references to dict objects, and
  \<^verbatim>\<open>get_error_log\<close> returns \<^verbatim>\<open>_error_log.copy()\<close>, a new list object with the same
  references. A heap of list objects and dict objects, with \<open>h_fresh\<close> the next unused
  address, makes that sharing explicit: \<open>log_error_obj\<close> and \<open>get_error_log_obj\<close> are
  \<^verbatim>\<open>log_error\<close> and \<^verbatim>\<open>get_error_log\<close> on the heap (without the print to stderr),
  \<open>list_store\<close> is any operation that changes the list object at an address, \<open>dict_store\<close>
  any that changes a dict object in place, and \<open>log_view\<close> is the content of the log.
\<close>

record heap =
  h_lists :: "nat \<Rightarrow> nat list"
  h_dicts :: "nat \<Rightarrow> entry"
  h_fresh :: nat

definition ERROR_LOG :: nat where
  "ERROR_LOG = 0"

definition log_error_obj :: "pystr \<Rightarrow> pystr \<Rightarrow> pystr \<Rightarrow> pystr \<Rightarrow> int option \<Rightarrow> heap \<Rightarrow> heap" where
  "log_error_obj ts model error_type details status h =
     (let d = h_fresh h;
          h1 = h\<lparr>h_dicts := (h_dicts h)(d := \<lparr>e_timestamp = ts, e_model = model,
                     e_error_type = error_type, e_details = take 500 details, e_status_code = status\<rparr>),
                 h_fresh := Suc d\<rparr>;
          l1 = h_lists h1 ERROR_LOG @ [d];
          l2 = (if length l1 > 50 then tl l1 else l1)
      in h1\<lparr>h_lists := (h_lists h1)(ERROR_LOG := l2)\<rparr>)"

definition get_error_log_obj :: "heap \<Rightarrow> nat \<times> heap" where
  "get_error_log_obj h =
     (h_fresh h, h\<lparr>h_lists := (h_lists h)(h_fresh h := h_lists h ERROR_LOG), h_fresh := Suc (h_fresh h)\<rparr>)"

definition list_store :: "nat \<Rightarrow> nat list \<Rightarrow> heap \<Rightarrow> heap" where
  "list_store a xs h = h\<lparr>h_lists := (h_lists h)(a := xs)\<rparr>"

definition dict_store :: "nat \<Rightarrow> entry \<Rightarrow> heap \<Rightarrow> heap" where
  "dict_store d e h = h\<lparr>h_dicts := (h_dicts h)(d := e)\<rparr>"

definition log_view :: "heap \<Rightarrow> entry list" where
  "log_view h = map (h_dicts h) (h_lists h ERROR_LOG)"

definition heap_ok :: "heap \<Rightarrow> bool" where
  "heap_ok h = (ERROR_LOG < h_fresh h \<and> (\<forall>a\<in>set (h_lists h ERROR_LOG). ERROR_LOG < a \<and> a < h_fresh h))"

definition heap0 :: heap where
  "heap0 = \<lparr>h_lists = (\<lambda>a. []),
            h_dicts = (\<lambda>a. \<lparr>e_timestamp = [], e_model = [], e_error_type = [], e_details = [], e_status_code = None\<rparr>),
            h_fresh = 1\<rparr>"

definition heap1 :: heap where
  "heap1 = log_error_obj (ustr ''t'') (ustr ''glm'') (ustr ''Timeout'') (ustr ''slow'') None heap0"

definition demo_item :: "nat \<Rightarrow> pystr \<times> pystr \<times> pystr \<times> int option" where
  "demo_item i = (ustr ''glm'', ustr ''Timeout'', str_nat i, None)"

section \<open>Observing the fallback sweep\<close>

text \<open>
  One model tried, as both \<^verbatim>\<open>try\<close> statements of \<^verbatim>\<open>verify_with_fallback\<close> do it: resolve
  the provider and call \<^verbatim>\<open>verify_code\<close>. The outcome is the successful result, or the
  entry that goes to \<^verbatim>\<open>errors_collected\<close>; an exception of \<^verbatim>\<open>get_provider\<close> is logged as
  a \<open>Provider Error\<close> first.
\<close>

definition attempt ::
  "config \<Rightarrow> env \<Rightarrow> pystr \<Rightarrow> pystr \<Rightarrow> pystr \<Rightarrow> world \<Rightarrow> (success_r + collected) \<times> world" where
  "attempt cfg env sp um k w =
     (case get_provider cfg k w of
        (Inl e, w1) \<Rightarrow>
          (Inr (collect_exception k (type_name e @ ustr '': '' @ str_exn e)),
           log_error env k (ustr ''Provider Error'') (type_name e @ ustr '': '' @ str_exn e) None w1)
      | (Inr p, w1) \<Rightarrow>
          (case verify_code cfg env p sp um w1 of
             (Success r, w2) \<Rightarrow> (Inl r, w2)
           | (Failure f, w2) \<Rightarrow> (Inr (collect_failure k f), w2)))"

text \<open>The models of a list tried in order, each in the world its predecessors leave, when
  every one of them fails: the collected failures and the world after the last.\<close>

fun fail_through ::
  "config \<Rightarrow> env \<Rightarrow> pystr \<Rightarrow> pystr \<Rightarrow> pystr list \<Rightarrow> world \<Rightarrow> (collected list \<times> world) option" where
  "fail_through cfg env sp um [] w = Some ([], w)"
| "fail_through cfg env sp um (k # ks) w =
     (case attempt cfg env sp um k w of
        (Inl r, w1) \<Rightarrow> None
      | (Inr c, w1) \<Rightarrow>
          (case fail_through cfg env sp um ks w1 of
             None \<Rightarrow> None
           | Some (cs, w2) \<Rightarrow> Some (c # cs, w2)))"

text \<open>What the loop adds to a successful result of a fallback model.\<close>

definition with_fallback_info :: "pystr \<Rightarrow> success_r \<Rightarrow> success_r" where
  "with_fallback_info primary r = r\<lparr>s_fallback_used := Some True, s_primary_model_failed := Some primary\<rparr>"

text \<open>Two worlds that differ in the trace only.\<close>

definition same_state :: "world \<Rightarrow> world \<Rightarrow> bool" where
  "same_state w w' = (error_log w' = error_log w \<and> providers w' = providers w \<and> next_id w' = next_id w)"

text \<open>The model and the details of a log entry, and the same two of a collected failure
  as \<^verbatim>\<open>log_error\<close> stores them.\<close>

definition model_details :: "entry \<Rightarrow> pystr \<times> pystr" where
  "model_details e = (e_model e, e_details e)"

definition collected_details :: "collected \<Rightarrow> pystr \<times> pystr" where
  "collected_details c = (c_model c, take 500 (c_error c))"

text \<open>A registry of two models, and an outside where the first model always answers 401
  and every other model answers well.\<close>

definition demo_model2 :: model_config where
  "demo_model2 =
     \<lparr>name = ustr ''Kimi'', provider = ustr ''openrouter'', base_url = ustr ''https://openrouter.ai/api/v1'',
      model_id = ustr ''kimi-k2'', api_key = ustr ''k2'', enabled = True, timeout = Some 30,
      cost_per_1k_tokens = None\<rparr>"

definition demo_config2 :: config where
  "demo_config2 =
     \<lparr>MODELS = [ustr ''glm'' \<mapsto> demo_model, ustr ''kimi'' \<mapsto> demo_model2],
      DEFAULT_TEMPERATURE = 0.1, DEFAULT_MAX_TOKENS = 4000, RETRY_ATTEMPTS = 3,
      RETRY_MIN_WAIT = 1, RETRY_MAX_WAIT = 10, RETRY_STATUS_CODES = [429, 500, 502, 503, 504],
      get_fallback_models = (\<lambda>k. filter (\<lambda>m. m \<noteq> k) [ustr ''glm'', ustr ''kimi''])\<rparr>"

definition answer_by_model :: env where
  "answer_by_model =
     \<lparr>post = (\<lambda>tr rq. Inr \<lparr>status_code = (if rq_model rq = ustr ''glm-4'' then 401 else 200),
                            resp_text = ustr ''body'', resp_json = Inr good_body,
                            resp_error = ustr ''error''\<rparr>),
      now = (\<lambda>tr. ustr ''2025-01-01T00:00:00''),
      lower = ascii_lower,
      repr_list = (\<lambda>ks. ustr ''[]'')\<rparr>"

section \<open>Properties of the retry wrapper\<close>

lemma sleeps_append: "sleeps (xs @ ys) = sleeps xs @ sleeps ys"
  by (induction xs rule: sleeps.induct) auto

lemma posts_append: "posts (xs @ ys) = posts xs @ posts ys"
  by (induction xs rule: posts.induct) auto

lemma failed_attempts_Suc:
  "failed_attempts cfg rq a (Suc n) = [Post rq, Sleep (wait_time cfg a)] @ failed_attempts cfg rq (Suc a) n"
  by (simp add: failed_attempts_def upt_conv_Cons del: upt_Suc)

lemma failed_attempts_0: "failed_attempts cfg rq a 0 = []"
  by (simp add: failed_attempts_def)

lemma sleeps_failed_attempts:
  "sleeps (failed_attempts cfg rq a n) = map (wait_time cfg) [a..<a + n]"
  by (induction n arbitrary: a)
     (simp_all add: failed_attempts_0 failed_attempts_Suc upt_conv_Cons del: upt_Suc)

lemma posts_failed_attempts: "posts (failed_attempts cfg rq a n) = replicate n rq"
  by (induction n arbitrary: a) (simp_all add: failed_attempts_0 failed_attempts_Suc)

text \<open>With \<open>Suc k\<close> iterations left and every one of them failing retryably, the loop sends
  \<open>Suc k\<close> requests, waits after each but the last, and raises the last error.\<close>

lemma retry_loop_all_fail:
  assumes "int (a + Suc k) = RETRY_ATTEMPTS cfg"
    and "\<forall>i\<le>k. retryable cfg (read_response (post env
            (trace w @ failed_attempts cfg (build_request self ms t mt) a i)
            (build_request self ms t mt)))"
  shows "retry_loop cfg env self ms t mt a (Suc k) le w =
           (read_response (post env
              (trace w @ failed_attempts cfg (build_request self ms t mt) a k)
              (build_request self ms t mt)),
            w\<lparr>trace := trace w @ failed_attempts cfg (build_request self ms t mt) a k
                          @ [Post (build_request self ms t mt)]\<rparr>)"
  using assms
proof (induction k arbitrary: a w le)
  case 0
  then have r: "retryable cfg (read_response (post env (trace w) (build_request self ms t mt)))"
    by (simp add: failed_attempts_0)
  from 0 have na: "\<not> int a < RETRY_ATTEMPTS cfg - 1" by simp
  from r na show ?case
    by (auto simp: call_api_def retryable_def failed_attempts_0 Let_def
             split: sum.splits exn.splits)
next
  case (Suc k)
  let ?rq = "build_request self ms t mt"
  from Suc.prems(2) have r: "retryable cfg (read_response (post env (trace w) ?rq))"
    by (auto simp: failed_attempts_0 dest: spec[of _ 0])
  then obtain sc tx m where e: "read_response (post env (trace w) ?rq) = Inl (HTTPStatusError sc tx m)"
    and c: "sc \<in> set (RETRY_STATUS_CODES cfg)"
    by (auto simp: retryable_def split: sum.splits exn.splits)
  from Suc.prems(1) have lt: "int a < RETRY_ATTEMPTS cfg - 1" by simp
  let ?w = "sleep (wait_time cfg a) (w\<lparr>trace := trace w @ [Post ?rq]\<rparr>)"
  have tw: "trace ?w = trace w @ [Post ?rq, Sleep (wait_time cfg a)]"
    by (simp add: sleep_def)
  have p1: "int (Suc a + Suc k) = RETRY_ATTEMPTS cfg"
    using Suc.prems(1) by simp
  have p2: "\<forall>i\<le>k. retryable cfg (read_response (post env
              (trace ?w @ failed_attempts cfg ?rq (Suc a) i) ?rq))"
  proof (intro allI impI)
    fix i assume "i \<le> k"
    then have "Suc i \<le> Suc k" by simp
    with Suc.prems(2) have "retryable cfg (read_response (post env
        (trace w @ failed_attempts cfg ?rq a (Suc i)) ?rq))"
      by blast
    then show "retryable cfg (read_response (post env
        (trace ?w @ failed_attempts cfg ?rq (Suc a) i) ?rq))"
      by (simp add: tw failed_attempts_Suc)
  qed
  have step: "retry_loop cfg env self ms t mt a (Suc (Suc k)) le w =
      retry_loop cfg env self ms t mt (Suc a) (Suc k) (Some (HTTPStatusError sc tx m)) ?w"
    using e c lt by (simp add: call_api_def Let_def)
  show ?case
    unfolding step Suc.IH[OF p1 p2]
    by (simp add: tw failed_attempts_Suc sleep_def)
qed

text \<open>
  C1. Let \<^verbatim>\<open>RETRY_ATTEMPTS\<close> be positive and let every attempt of a call, made in the trace its
  predecessors leave, end in an \<open>HTTPStatusError\<close> whose status code is in
  \<^verbatim>\<open>RETRY_STATUS_CODES\<close>. Then \<^verbatim>\<open>_call_api_with_retry\<close> raises what the last attempt raised,
  and what it adds to the trace is attempt \<open>0\<close>, the wait \<open>min (RETRY_MIN_WAIT * 2^0, RETRY_MAX_WAIT)\<close>,
  attempt \<open>1\<close>, the next wait, and so on up to the last attempt, with no wait after it:
  exactly \<^verbatim>\<open>RETRY_ATTEMPTS\<close> requests, and the wait after attempt \<open>i\<close> is
  \<open>min (RETRY_MIN_WAIT * 2^i, RETRY_MAX_WAIT)\<close> for each \<open>i\<close> below \<open>RETRY_ATTEMPTS - 1\<close>.
\<close>

theorem retry_exhausts_all_attempts:
  assumes "0 < RETRY_ATTEMPTS cfg"
    and "\<forall>i<nat (RETRY_ATTEMPTS cfg).
           retryable cfg (read_response (post env
             (trace w @ failed_attempts cfg (build_request self ms t mt) 0 i)
             (build_request self ms t mt)))"
  shows "call_api_with_retry cfg env self ms t mt w =
           (read_response (post env
              (trace w @ failed_attempts cfg (build_request self ms t mt) 0 (nat (RETRY_ATTEMPTS cfg) - 1))
              (build_request self ms t mt)),
            w\<lparr>trace := trace w
                 @ failed_attempts cfg (build_request self ms t mt) 0 (nat (RETRY_ATTEMPTS cfg) - 1)
                 @ [Post (build_request self ms t mt)]\<rparr>)
       \<and> posts (failed_attempts cfg (build_request self ms t mt) 0 (nat (RETRY_ATTEMPTS cfg) - 1)
                  @ [Post (build_request self ms t mt)])
           = replicate (nat (RETRY_ATTEMPTS cfg)) (build_request self ms t mt)
       \<and> sleeps (failed_attempts cfg (build_request self ms t mt) 0 (nat (RETRY_ATTEMPTS cfg) - 1)
                  @ [Post (build_request self ms t mt)])
           = map (\<lambda>i. min (RETRY_MIN_WAIT cfg * 2 ^ i) (RETRY_MAX_WAIT cfg))
                 [0..<nat (RETRY_ATTEMPTS cfg) - 1]"
proof -
  obtain k where k: "nat (RETRY_ATTEMPTS cfg) = Suc k"
    using assms(1) by (cases "nat (RETRY_ATTEMPTS cfg)") auto
  then have a: "int (0 + Suc k) = RETRY_ATTEMPTS cfg"
    using assms(1) by linarith
  have b: "\<forall>i\<le>k. retryable cfg (read_response (post env
             (trace w @ failed_attempts cfg (build_request self ms t mt) 0 i)
             (build_request self ms t mt)))"
    using assms(2) k by auto
  have wt: "wait_time cfg = (\<lambda>i. min (RETRY_MIN_WAIT cfg * 2 ^ i) (RETRY_MAX_WAIT cfg))"
    by (rule ext) (simp add: wait_time_def)
  show ?thesis
    unfolding call_api_with_retry_def k
    by (simp add: retry_loop_all_fail[OF a b] posts_append sleeps_append
          posts_failed_attempts sleeps_failed_attempts wt replicate_append_same
          del: retry_loop.simps)
qed

theorem retry_exhausts_all_attempts_witness:
  "call_api_with_retry demo_config (answer_with 503 (Inr JNull)) demo_provider [] 0.1 4000 world0 =
     (Inl (HTTPStatusError 503 (ustr ''body'') (ustr ''error'')),
      world0\<lparr>trace := [Post (build_request demo_provider [] 0.1 4000), Sleep 1,
                        Post (build_request demo_provider [] 0.1 4000), Sleep 2,
                        Post (build_request demo_provider [] 0.1 4000)]\<rparr>)"
  using retry_exhausts_all_attempts
          [of demo_config "answer_with 503 (Inr JNull)" world0 demo_provider "[]" "0.1" 4000]
  by (simp add: demo_config_def answer_with_def world0_def retryable_def read_response_def
        failed_attempts_def wait_time_def numeral_3_eq_3)

text \<open>
  C5. Let \<^verbatim>\<open>RETRY_ATTEMPTS\<close> be positive and let the first attempt raise an exception that is
  not retryable: an \<open>HTTPStatusError\<close> whose status code is not in \<^verbatim>\<open>RETRY_STATUS_CODES\<close>, or
  any other exception (a timeout, a connection error, a body that is not JSON). Then
  \<^verbatim>\<open>_call_api_with_retry\<close> raises that exception, and all it adds to the trace is the one
  request: no wait and no second attempt.
\<close>

theorem no_retry_for_other_failures:
  assumes "0 < RETRY_ATTEMPTS cfg"
    and "read_response (post env (trace w) (build_request self ms t mt)) = Inl e"
    and "non_retryable cfg e"
  shows "call_api_with_retry cfg env self ms t mt w =
           (Inl e, w\<lparr>trace := trace w @ [Post (build_request self ms t mt)]\<rparr>)"
proof -
  obtain k where k: "nat (RETRY_ATTEMPTS cfg) = Suc k"
    using assms(1) by (cases "nat (RETRY_ATTEMPTS cfg)") auto
  show ?thesis
    unfolding call_api_with_retry_def k using assms(2,3)
    by (auto simp: call_api_def non_retryable_def Let_def split: exn.splits)
qed

theorem no_retry_for_other_failures_witness:
  "call_api_with_retry demo_config (answer_with 401 (Inr JNull)) demo_provider [] 0.1 4000 world0 =
     (Inl (HTTPStatusError 401 (ustr ''body'') (ustr ''error'')),
      world0\<lparr>trace := [Post (build_request demo_provider [] 0.1 4000)]\<rparr>)"
  using no_retry_for_other_failures
          [of demo_config "answer_with 401 (Inr JNull)" world0 demo_provider "[]" "0.1" 4000
              "HTTPStatusError 401 (ustr ''body'') (ustr ''error'')"]
  by (simp add: demo_config_def answer_with_def world0_def non_retryable_def read_response_def)

section \<open>Properties of verify\_code\<close>

lemma div_1000_number: "json_number v = Some x \<Longrightarrow> div_1000 v = Inr (x / 1000)"
  by (cases v) (auto simp: json_number_def)

text \<open>A successful result comes from a body that the retry wrapper returned; its verdict,
  usage and cost are read from that body.\<close>

lemma verify_code_Success:
  assumes "verify_code cfg env self sp um w = (Success r, w')"
  shows "\<exists>data. call_api_with_retry cfg env self (request_messages sp um)
                  (DEFAULT_TEMPERATURE cfg) (DEFAULT_MAX_TOKENS cfg) w = (Inr data, w')
          \<and> extract_verdict data = Inr (s_verdict r)
          \<and> dict_get data (ustr ''usage'') (JObj []) = Inr (s_tokens_used r)
          \<and> calculate_cost self (s_tokens_used r) = Inr (s_cost r)"
  using assms
  by (auto simp: verify_code_def verify_code_try_def request_messages_def bind_exn_def Let_def
           split: prod.splits sum.splits exn.splits)

lemma extract_verdict_dict: "extract_verdict data = Inr v \<Longrightarrow> \<exists>kvs. data = JObj kvs"
  by (cases data) (auto simp: extract_verdict_def bind_exn_def)

lemma demo_success:
  "verify_code demo_config (answer_with 200 (Inr good_body)) demo_provider [] [] world0 =
    (Success \<lparr>s_verdict = JStr (ustr ''ok''), s_model = ustr ''GLM'', s_model_key = ustr ''glm'',
       s_tokens_used = JObj [(ustr ''total_tokens'', JInt 2000)], s_cost = 0.8,
       s_fallback_used = None, s_primary_model_failed = None\<rparr>,
     world0\<lparr>trace := [Post (build_request demo_provider (request_messages [] []) 0.1 4000)]\<rparr>)"
  by (simp add: verify_code_def verify_code_try_def call_api_with_retry_def demo_config_def
       answer_with_def demo_provider_def demo_model_def world0_def good_body_def call_api_def
       read_response_def extract_verdict_def bind_exn_def calculate_cost_def request_messages_def
       numeral_3_eq_3 ustr_def)

text \<open>
  C8. For every successful call of \<^verbatim>\<open>verify_code\<close> the retry wrapper returned a dict, the
  result's \<open>tokens_used\<close> is that dict's \<open>usage\<close> (the empty dict when the key is absent),
  and the cost is \<open>(total_tokens / 1000) * cost_per_1k\<close> for the \<open>total_tokens\<close> of the usage and
  the \<open>cost_per_1k_tokens\<close> of the model; with 2000 tokens and 0.4 per 1000 it is 0.8, and with
  no usage in the response it is 0. Floats are reals here.
\<close>

theorem cost_of_successful_call:
  assumes "verify_code cfg env self sp um w = (Success r, w')"
  shows "\<exists>kvs. call_api_with_retry cfg env self (request_messages sp um)
                  (DEFAULT_TEMPERATURE cfg) (DEFAULT_MAX_TOKENS cfg) w = (Inr (JObj kvs), w')
          \<and> s_tokens_used r = (case map_of kvs (ustr ''usage'') of None \<Rightarrow> JObj [] | Some u \<Rightarrow> u)
          \<and> (map_of kvs (ustr ''usage'') = None \<longrightarrow> s_cost r = 0)
          \<and> (\<forall>us tt x c. s_tokens_used r = JObj us \<and> map_of us (ustr ''total_tokens'') = Some tt
                 \<and> json_number tt = Some x \<and> cost_per_1k_tokens (p_config self) = Some c
                 \<longrightarrow> s_cost r = (x / 1000) * c)
          \<and> (\<forall>us. s_tokens_used r = JObj us \<and> map_of us (ustr ''total_tokens'') = Some (JInt 2000)
                 \<and> cost_per_1k_tokens (p_config self) = Some 0.4
                 \<longrightarrow> s_cost r = 0.8)"
proof -
  from verify_code_Success[OF assms] obtain data where
    c: "call_api_with_retry cfg env self (request_messages sp um)
          (DEFAULT_TEMPERATURE cfg) (DEFAULT_MAX_TOKENS cfg) w = (Inr data, w')"
    and v: "extract_verdict data = Inr (s_verdict r)"
    and u: "dict_get data (ustr ''usage'') (JObj []) = Inr (s_tokens_used r)"
    and k: "calculate_cost self (s_tokens_used r) = Inr (s_cost r)"
    by blast
  from extract_verdict_dict[OF v] obtain kvs where d: "data = JObj kvs"
    by blast
  have u': "s_tokens_used r = (case map_of kvs (ustr ''usage'') of None \<Rightarrow> JObj [] | Some u \<Rightarrow> u)"
    using u d by simp
  have a: "map_of kvs (ustr ''usage'') = None \<longrightarrow> s_cost r = 0"
    using k u' by (auto simp: calculate_cost_def)
  have g: "s_cost r = (x / 1000) * c"
    if "s_tokens_used r = JObj us" "map_of us (ustr ''total_tokens'') = Some tt"
       "json_number tt = Some x" "cost_per_1k_tokens (p_config self) = Some c" for us tt x c
  proof -
    from that(2) have "us \<noteq> []" by auto
    with that k show ?thesis
      by (simp add: calculate_cost_def bind_exn_def div_1000_number)
  qed
  have i: "s_cost r = 0.8"
    if "s_tokens_used r = JObj us" "map_of us (ustr ''total_tokens'') = Some (JInt 2000)"
       "cost_per_1k_tokens (p_config self) = Some 0.4" for us
    using g[OF that(1,2) _ that(3), of 2000] by (simp add: json_number_def)
  have c': "call_api_with_retry cfg env self (request_messages sp um)
          (DEFAULT_TEMPERATURE cfg) (DEFAULT_MAX_TOKENS cfg) w = (Inr (JObj kvs), w')"
    using c d by simp
  show ?thesis
  proof (intro exI[of _ kvs] conjI allI impI)
    show "call_api_with_retry cfg env self (request_messages sp um)
          (DEFAULT_TEMPERATURE cfg) (DEFAULT_MAX_TOKENS cfg) w = (Inr (JObj kvs), w')"
      by (rule c')
    show "s_tokens_used r = (case map_of kvs (ustr ''usage'') of None \<Rightarrow> JObj [] | Some u \<Rightarrow> u)"
      by (rule u')
    show "s_cost r = 0" if "map_of kvs (ustr ''usage'') = None"
      using a that by simp
    show "s_cost r = (x / 1000) * c"
      if "s_tokens_used r = JObj us \<and> map_of us (ustr ''total_tokens'') = Some tt
            \<and> json_number tt = Some x \<and> cost_per_1k_tokens (p_config self) = Some c" for us tt x c
      using g that by blast
    show "s_cost r = 0.8"
      if "s_tokens_used r = JObj us \<and> map_of us (ustr ''total_tokens'') = Some (JInt 2000)
            \<and> cost_per_1k_tokens (p_config self) = Some 0.4" for us
      using i that by blast
  qed
qed

theorem cost_of_successful_call_witness:
  "\<exists>kvs. call_api_with_retry demo_config (answer_with 200 (Inr good_body)) demo_provider
            (request_messages [] []) 0.1 4000 world0
          = (Inr (JObj kvs),
             world0\<lparr>trace := [Post (build_request demo_provider (request_messages [] []) 0.1 4000)]\<rparr>)
        \<and> JObj [(ustr ''total_tokens'', JInt 2000)]
          = (case map_of kvs (ustr ''usage'') of None \<Rightarrow> JObj [] | Some u \<Rightarrow> u)"
  using cost_of_successful_call[OF demo_success]
  by (auto simp: demo_config_def)

lemma last_log_error:
  "last (error_log (log_error env model ty details sc w)) =
     \<lparr>e_timestamp = now env (trace w), e_model = model, e_error_type = ty,
      e_details = take 500 details, e_status_code = sc\<rparr>"
proof -
  have "last (tl (xs @ [x])) = x" if "50 < length (xs @ [x])" for xs :: "entry list" and x
    using that by (cases xs) auto
  then show ?thesis
    by (simp add: log_error_def Let_def del: length_append)
qed

lemma subscript_key_exn: "subscript_key v k = Inl e \<Longrightarrow> shape_error e"
  by (cases v) (auto simp: shape_error_def split: option.splits)

lemma subscript_zero_exn: "subscript_zero v = Inl e \<Longrightarrow> shape_error e"
  by (cases v rule: subscript_zero.cases) (auto simp: shape_error_def)

lemma extract_verdict_exn:
  assumes "extract_verdict data = Inl e"
  shows "shape_error e"
  using assms
  by (auto simp: extract_verdict_def bind_exn_def split: sum.splits
           dest: subscript_key_exn subscript_zero_exn)

lemma shape_error_PyException:
  "shape_error e \<Longrightarrow> e = PyException (type_name e) (str_exn e)
      \<and> type_name e \<in> {ustr ''KeyError'', ustr ''IndexError'', ustr ''TypeError''}"
  by (auto simp: shape_error_def KeyError_def IndexError_def TypeError_def)

text \<open>Bodies that lack the expected shape: no \<open>choices\<close>, an empty \<open>choices\<close> list, a first
  choice without \<open>message\<close>, a message without \<open>content\<close>, a \<open>choices\<close> that is \<^verbatim>\<open>null\<close>.\<close>

lemma malformed_shapes:
  "map_of kvs (ustr ''choices'') = None \<Longrightarrow>
     extract_verdict (JObj kvs) = Inl (KeyError ([39] @ ustr ''choices'' @ [39]))"
  "map_of kvs (ustr ''choices'') = Some (JArr []) \<Longrightarrow>
     extract_verdict (JObj kvs) = Inl (IndexError (ustr ''list index out of range''))"
  "map_of kvs (ustr ''choices'') = Some (JArr (JObj c # rest)) \<Longrightarrow> map_of c (ustr ''message'') = None \<Longrightarrow>
     extract_verdict (JObj kvs) = Inl (KeyError ([39] @ ustr ''message'' @ [39]))"
  "map_of kvs (ustr ''choices'') = Some (JArr (JObj c # rest)) \<Longrightarrow> map_of c (ustr ''message'') = Some (JObj m)
     \<Longrightarrow> map_of m (ustr ''content'') = None \<Longrightarrow>
     extract_verdict (JObj kvs) = Inl (KeyError ([39] @ ustr ''content'' @ [39]))"
  "map_of kvs (ustr ''choices'') = Some JNull \<Longrightarrow>
     extract_verdict (JObj kvs) = Inl (TypeError ([39] @ ustr ''NoneType'' @ [39] @ ustr '' object is not subscriptable''))"
  by (simp_all add: extract_verdict_def bind_exn_def)

text \<open>\<^verbatim>\<open>verify_code\<close> returns a tagged outcome whatever the outside does: its result is a
  \<open>Success\<close> or a \<open>Failure\<close> that names the model.\<close>

lemma verify_code_total:
  "(\<exists>r. fst (verify_code cfg env self sp um w) = Success r)
   \<or> (\<exists>f. fst (verify_code cfg env self sp um w) = Failure f \<and> f_model_key f = p_model_key self)"
  by (auto simp: verify_code_def Let_def split: prod.splits sum.splits exn.splits)

text \<open>
  C9. Let the retry wrapper return a body \<open>data\<close> (the parsed JSON of a 2xx response) from which
  \<^verbatim>\<open>data["choices"][0]["message"]["content"]\<close> cannot be read, so that reading it raises \<open>e\<close>.
  Then \<open>e\<close> is a \<open>KeyError\<close>, an \<open>IndexError\<close> or a \<open>TypeError\<close>, and \<^verbatim>\<open>verify_code\<close> does not
  raise: the generic handler returns the failure whose \<open>error\<close> is the name of the exception
  type, a colon and the message, with no \<open>error_code\<close>, and records it with \<^verbatim>\<open>log_error\<close>, so
  that it is the newest entry of the diagnostics log.
\<close>

theorem malformed_body_is_failure:
  assumes "call_api_with_retry cfg env self (request_messages sp um)
             (DEFAULT_TEMPERATURE cfg) (DEFAULT_MAX_TOKENS cfg) w = (Inr data, w1)"
    and "extract_verdict data = Inl e"
  shows "verify_code cfg env self sp um w =
           (Failure \<lparr>f_error = type_name e @ ustr '': '' @ str_exn e,
                     f_error_code = None,
                     f_model = name (p_config self),
                     f_model_key = p_model_key self\<rparr>,
            log_error env (p_model_key self) (type_name e)
              (type_name e @ ustr '': '' @ str_exn e) None w1)
       \<and> type_name e \<in> {ustr ''KeyError'', ustr ''IndexError'', ustr ''TypeError''}
       \<and> last (error_log (snd (verify_code cfg env self sp um w))) =
           \<lparr>e_timestamp = now env (trace w1), e_model = p_model_key self,
            e_error_type = type_name e,
            e_details = take 500 (type_name e @ ustr '': '' @ str_exn e),
            e_status_code = None\<rparr>"
proof -
  from extract_verdict_exn[OF assms(2)] have se: "shape_error e" .
  from shape_error_PyException[OF se] have pe: "e = PyException (type_name e) (str_exn e)"
    and ty: "type_name e \<in> {ustr ''KeyError'', ustr ''IndexError'', ustr ''TypeError''}" by simp_all
  have t: "verify_code_try cfg env self sp um w = (Inl e, w1)"
    using assms by (simp add: verify_code_try_def request_messages_def bind_exn_def)
  have v: "verify_code cfg env self sp um w =
           (Failure \<lparr>f_error = type_name e @ ustr '': '' @ str_exn e,
                     f_error_code = None,
                     f_model = name (p_config self),
                     f_model_key = p_model_key self\<rparr>,
            log_error env (p_model_key self) (type_name e)
              (type_name e @ ustr '': '' @ str_exn e) None w1)"
    unfolding verify_code_def t by (subst (1) pe) (simp add: Let_def)
  show ?thesis
    unfolding v using ty by (simp add: last_log_error)
qed

lemma demo_malformed:
  "call_api_with_retry demo_config (answer_with 200 (Inr (JObj []))) demo_provider
      (request_messages [] []) (DEFAULT_TEMPERATURE demo_config) (DEFAULT_MAX_TOKENS demo_config) world0
    = (Inr (JObj []), world0\<lparr>trace := [Post (build_request demo_provider (request_messages [] []) 0.1 4000)]\<rparr>)"
  by (simp add: call_api_with_retry_def demo_config_def answer_with_def world0_def call_api_def
        read_response_def numeral_3_eq_3)

theorem malformed_body_is_failure_witness:
  "verify_code demo_config (answer_with 200 (Inr (JObj []))) demo_provider [] [] world0 =
     (Failure \<lparr>f_error = ustr ''KeyError: '' @ [39] @ ustr ''choices'' @ [39],
               f_error_code = None, f_model = ustr ''GLM'', f_model_key = ustr ''glm''\<rparr>,
      log_error (answer_with 200 (Inr (JObj []))) (ustr ''glm'') (ustr ''KeyError'')
        (ustr ''KeyError: '' @ [39] @ ustr ''choices'' @ [39]) None
        (world0\<lparr>trace := [Post (build_request demo_provider (request_messages [] []) 0.1 4000)]\<rparr>))"
  using malformed_body_is_failure[OF demo_malformed malformed_shapes(1)[of "[]"]]
  by (simp add: KeyError_def demo_provider_def demo_model_def ustr_def)

section \<open>Properties of the manager\<close>

lemma cache_ok_world0: "cache_ok cfg world0"
  by (simp add: cache_ok_def world0_def)

lemma ModelProvider_init_unusable:
  "\<not> usable cfg k \<Longrightarrow> \<exists>m. ModelProvider_init cfg k i = Inl (ValueError m)"
  by (auto simp: usable_def ModelProvider_init_def split: option.splits)

lemma ModelProvider_init_usable:
  "usable cfg k \<Longrightarrow> \<exists>c. MODELS cfg k = Some c \<and>
     ModelProvider_init cfg k i = Inr \<lparr>p_id = i, p_config = c, p_model_key = k\<rparr>"
  by (auto simp: usable_def ModelProvider_init_def split: option.splits)

lemma get_provider_cache_ok: "cache_ok cfg w \<Longrightarrow> cache_ok cfg (snd (get_provider cfg k w))"
  by (auto simp: cache_ok_def get_provider_def ModelProvider_init_def split: option.splits sum.splits if_splits)

lemma get_provider_keeps:
  "providers w k = Some p \<Longrightarrow> providers (snd (get_provider cfg' k' w)) k = Some p"
  by (auto simp: get_provider_def split: option.splits sum.splits)

lemma get_provider_trace: "trace (snd (get_provider cfg k w)) = trace w"
  by (auto simp: get_provider_def split: option.splits sum.splits)

lemma get_provider_error_log: "error_log (snd (get_provider cfg k w)) = error_log w"
  by (auto simp: get_provider_def split: option.splits sum.splits)

text \<open>
  C7. Let the cache be in order. Resolving a key that is unknown or disabled fails:
  \<^verbatim>\<open>ModelProvider.__init__\<close> raises a \<open>ValueError\<close>, \<^verbatim>\<open>get_provider\<close> raises it and leaves the
  world as it was, so nothing was sent. Resolving a known, enabled key returns a provider
  for that key with the config of \<^verbatim>\<open>MODELS\<close>, sends nothing, and stores the provider: every
  later \<^verbatim>\<open>get_provider\<close> of the key returns the same object and changes nothing, and no
  resolution of any key replaces it.
\<close>

theorem resolve_provider:
  assumes "cache_ok cfg w"
  shows "(\<not> usable cfg k \<longrightarrow>
            (\<exists>m. ModelProvider_init cfg k i = Inl (ValueError m))
          \<and> (\<exists>m. get_provider cfg k w = (Inl (ValueError m), w)))
       \<and> (usable cfg k \<longrightarrow>
            (\<exists>p w'. get_provider cfg k w = (Inr p, w')
               \<and> p_model_key p = k \<and> MODELS cfg k = Some (p_config p)
               \<and> trace w' = trace w
               \<and> providers w' k = Some p
               \<and> (\<forall>cfg'. get_provider cfg' k w' = (Inr p, w'))
               \<and> (\<forall>cfg' k'. providers (snd (get_provider cfg' k' w')) k = Some p)))"
proof (intro conjI impI)
  assume u: "\<not> usable cfg k"
  show "\<exists>m. ModelProvider_init cfg k i = Inl (ValueError m)"
    by (rule ModelProvider_init_unusable[OF u])
  from u assms have n: "providers w k = None"
    by (cases "providers w k") (auto simp: cache_ok_def usable_def)
  from ModelProvider_init_unusable[OF u, of "next_id w"] n
  show "\<exists>m. get_provider cfg k w = (Inl (ValueError m), w)"
    by (auto simp: get_provider_def)
next
  assume u: "usable cfg k"
  show "\<exists>p w'. get_provider cfg k w = (Inr p, w')
               \<and> p_model_key p = k \<and> MODELS cfg k = Some (p_config p)
               \<and> trace w' = trace w
               \<and> providers w' k = Some p
               \<and> (\<forall>cfg'. get_provider cfg' k w' = (Inr p, w'))
               \<and> (\<forall>cfg' k'. providers (snd (get_provider cfg' k' w')) k = Some p)"
  proof (cases "providers w k")
    case None
    from ModelProvider_init_usable[OF u, of "next_id w"] obtain c where
      c: "MODELS cfg k = Some c"
      and i: "ModelProvider_init cfg k (next_id w) = Inr \<lparr>p_id = next_id w, p_config = c, p_model_key = k\<rparr>"
      by blast
    let ?p = "\<lparr>p_id = next_id w, p_config = c, p_model_key = k\<rparr>"
    let ?w = "w\<lparr>providers := (providers w)(k \<mapsto> ?p), next_id := Suc (next_id w)\<rparr>"
    have g: "get_provider cfg k w = (Inr ?p, ?w)"
      using None i by (simp add: get_provider_def)
    have k: "providers ?w k = Some ?p" by simp
    show ?thesis
      apply (rule exI[of _ ?p], rule exI[of _ ?w])
      using g c get_provider_keeps[OF k] by (simp add: get_provider_def)
  next
    case (Some p)
    with assms have c: "p_model_key p = k" "MODELS cfg k = Some (p_config p)"
      by (auto simp: cache_ok_def)
    have g: "get_provider cfg k w = (Inr p, w)" using Some by (simp add: get_provider_def)
    show ?thesis
      apply (rule exI[of _ p], rule exI[of _ w])
      using g c Some get_provider_keeps[OF Some] by (simp add: get_provider_def)
  qed
qed

theorem resolve_provider_witness:
  "get_provider demo_config (ustr ''nope'') world0 = (Inl (ValueError (ustr ''Unknown model: nope'')), world0)
   \<and> (\<exists>w'. get_provider demo_config (ustr ''glm'') world0 = (Inr demo_provider, w')
          \<and> get_provider demo_config (ustr ''glm'') w' = (Inr demo_provider, w'))"
  using resolve_provider[OF cache_ok_world0, of demo_config "ustr ''nope''" 0]
        resolve_provider[OF cache_ok_world0, of demo_config "ustr ''glm''" 0]
  by (auto simp: usable_def demo_config_def demo_provider_def get_provider_def ModelProvider_init_def
        world0_def ustr_def demo_model_def)

section \<open>Properties of the diagnostics\<close>

lemma fold_entry_lines:
  "fold (\<lambda>err ls. ls @ entry_lines err) xs ls0 = ls0 @ concat (map entry_lines xs)"
  by (induction xs arbitrary: ls0) simp_all

lemma format_error_lines_eq:
  "format_error_lines lower_fn errors =
     [ustr ''## Recent Errors'' @ [10]]
     @ concat (map entry_lines (drop (length errors - 5) errors))
     @ [[10] @ ustr ''## Possible Causes'' @ [10]]
     @ cause_lines lower_fn errors"
  unfolding format_error_lines_def cause_lines_def Let_def fold_entry_lines slice_last_def list_ex_iff
    line_401_def line_429_def line_timeout_def line_connection_def
  by simp

text \<open>
  C10. \<^verbatim>\<open>format_error_for_user\<close> of the empty list is exactly \<open>No errors recorded.\<close>. Of a
  non-empty list it is the lines joined by newlines: the heading, the two lines of each of
  the last five entries (of all entries when there are fewer) and of no other entry, the
  heading of the causes, and the cause lines, where each cause (a 401, a 429, a timeout, a
  connection error) is looked for in all entries of the list, and the two generic lines
  appear when none is found. So at most five entries are shown, while the line about the
  API key is there exactly when some entry of the whole list has status 401.
\<close>

theorem format_error_report:
  "format_error_for_user lower_fn [] = ustr ''No errors recorded.''
   \<and> (errors \<noteq> [] \<longrightarrow>
        format_error_for_user lower_fn errors =
          join [10] ([ustr ''## Recent Errors'' @ [10]]
                     @ concat (map entry_lines (drop (length errors - 5) errors))
                     @ [[10] @ ustr ''## Possible Causes'' @ [10]]
                     @ cause_lines lower_fn errors))
   \<and> length (drop (length errors - 5) errors) = min 5 (length errors)
   \<and> (line_401 \<in> set (cause_lines lower_fn errors)
        \<longleftrightarrow> (\<exists>e\<in>set errors. e_status_code e = Some 401))"
proof (intro conjI impI)
  show "format_error_for_user lower_fn [] = ustr ''No errors recorded.''"
    by (simp add: format_error_for_user_def)
next
  assume "errors \<noteq> []"
  then have "format_error_for_user lower_fn errors = join [10] (format_error_lines lower_fn errors)"
    by (simp add: format_error_for_user_def)
  then show "format_error_for_user lower_fn errors =
          join [10] ([ustr ''## Recent Errors'' @ [10]]
                     @ concat (map entry_lines (drop (length errors - 5) errors))
                     @ [[10] @ ustr ''## Possible Causes'' @ [10]]
                     @ cause_lines lower_fn errors)"
    by (simp only: format_error_lines_eq)
next
  show "length (drop (length errors - 5) errors) = min 5 (length errors)"
    by simp
next
  have d: "line_401 \<noteq> line_429" "line_401 \<noteq> line_timeout" "line_401 \<noteq> line_connection"
    "line_401 \<noteq> ustr ''- Check API provider status pages (z.ai, OpenRouter)''"
    "line_401 \<noteq> ustr ''- Verify API keys are valid and have credits''"
    by (simp_all add: line_401_def line_429_def line_timeout_def line_connection_def ustr_def)
  show "line_401 \<in> set (cause_lines lower_fn errors)
        \<longleftrightarrow> (\<exists>e\<in>set errors. e_status_code e = Some 401)"
    using d by (auto simp: cause_lines_def Let_def)
qed

theorem format_error_report_witness:
  "format_error_for_user ascii_lower
     [demo_entry (ustr ''old'') (Some 401), demo_entry (ustr ''a'') None, demo_entry (ustr ''b'') None,
      demo_entry (ustr ''c'') None, demo_entry (ustr ''d'') None, demo_entry (ustr ''e'') (Some 0)]
   = join [10]
       [ustr ''## Recent Errors'' @ [10],
        ustr ''- **a**: E'', ustr ''  - d'',
        ustr ''- **b**: E'', ustr ''  - d'',
        ustr ''- **c**: E'', ustr ''  - d'',
        ustr ''- **d**: E'', ustr ''  - d'',
        ustr ''- **e**: E'', ustr ''  - d'',
        [10] @ ustr ''## Possible Causes'' @ [10],
        line_401]"
  using format_error_report[of ascii_lower "[demo_entry (ustr ''old'') (Some 401), demo_entry (ustr ''a'') None,
      demo_entry (ustr ''b'') None, demo_entry (ustr ''c'') None, demo_entry (ustr ''d'') None,
      demo_entry (ustr ''e'') (Some 0)]"]
  by (simp add: cause_lines_def demo_entry_def entry_lines_def ascii_lower_def ustr_def)

lemma slice_last_snoc:
  "(if n < length (xs @ [x]) then tl (xs @ [x]) else xs @ [x]) = slice_last n (xs @ [x])"
  if "length xs \<le> n"
proof (cases "n < length (xs @ [x])")
  case True
  with that have n: "length xs = n" by simp
  then have "xs \<noteq> [] \<or> n = 0" by auto
  with True n show ?thesis by (cases xs) (auto simp: slice_last_def)
next
  case False
  then show ?thesis by (simp add: slice_last_def)
qed

lemma slice_last_slice_last: "slice_last n (slice_last n xs @ ys) = slice_last n (xs @ ys)"
proof (cases "length xs \<le> n")
  case True
  then show ?thesis by (simp add: slice_last_def)
next
  case False
  then have "length xs + length ys - (length xs - n + n) + (length xs - n) = length xs + length ys - n"
    by simp
  then show ?thesis by (simp add: slice_last_def)
qed

lemma length_slice_last: "length (slice_last n xs) \<le> n"
  by (simp add: slice_last_def)

lemma slice_last_id: "length xs \<le> n \<Longrightarrow> slice_last n xs = xs"
  by (simp add: slice_last_def)

lemma error_log_log_error:
  "length (error_log w) \<le> 50 \<Longrightarrow>
   error_log (log_error env model ty details sc w) =
     slice_last 50 (error_log w @ [\<lparr>e_timestamp = now env (trace w), e_model = model, e_error_type = ty,
                                     e_details = take 500 details, e_status_code = sc\<rparr>])"
  using slice_last_snoc[of "error_log w" 50]
  by (simp add: log_error_def Let_def del: length_append)

lemma entry_fields_simp:
  "entry_fields \<lparr>e_timestamp = ts, e_model = m, e_error_type = t, e_details = d, e_status_code = s\<rparr>
     = (m, t, d, s)"
  by (simp add: entry_fields_def)

lemma stored_simp: "stored (m, t, d, s) = (m, t, take 500 d, s)"
  by (simp add: stored_def)

lemma map_slice_last: "map f (slice_last n xs) = slice_last n (map f xs)"
  by (simp add: slice_last_def drop_map)

lemma log_all_fields:
  "length (error_log w) \<le> 50 \<Longrightarrow>
   map entry_fields (error_log (log_all env items w)) =
     slice_last 50 (map entry_fields (error_log w) @ map stored items)"
proof (induction items arbitrary: w)
  case Nil
  then show ?case by (simp add: slice_last_id)
next
  case (Cons x items)
  obtain model ty details sc where x: "x = (model, ty, details, sc)" by (cases x) auto
  let ?w = "log_error env model ty details sc w"
  have l: "length (error_log ?w) \<le> 50"
    using Cons.prems by (simp add: error_log_log_error length_slice_last)
  show ?case
    unfolding x log_all.simps Cons.IH[OF l]
    using Cons.prems
    by (simp add: error_log_log_error map_slice_last slice_last_slice_last entry_fields_simp stored_simp)
qed

lemma log_all_length: "length (error_log w) \<le> 50 \<Longrightarrow> length (error_log (log_all env items w)) \<le> 50"
proof -
  assume a: "length (error_log w) \<le> 50"
  have "length (map entry_fields (error_log (log_all env items w))) \<le> 50"
    unfolding log_all_fields[OF a] by (rule length_slice_last)
  then show ?thesis by simp
qed

lemma log_all_details:
  assumes "length (error_log w) \<le> 50" "\<forall>e\<in>set (error_log w). length (e_details e) \<le> 500"
  shows "\<forall>e\<in>set (error_log (log_all env items w)). length (e_details e) \<le> 500"
proof -
  have "\<forall>f\<in>set (map entry_fields (error_log (log_all env items w))). length (fst (snd (snd f))) \<le> 500"
    unfolding log_all_fields[OF assms(1)] slice_last_def
    using assms(2) by (auto dest!: in_set_dropD simp: entry_fields_def stored_def)
  then show ?thesis by (auto simp: entry_fields_def)
qed

lemma heap_ok_heap0: "heap_ok heap0"
  by (simp add: heap_ok_def heap0_def ERROR_LOG_def)

lemma in_set_tl: "x \<in> set (tl xs) \<Longrightarrow> x \<in> set xs"
  by (cases xs) auto

lemma heap_ok_log_error_obj: "heap_ok h \<Longrightarrow> heap_ok (log_error_obj ts m t d s h)"
  by (fastforce simp: heap_ok_def log_error_obj_def Let_def ERROR_LOG_def less_Suc_eq dest!: in_set_tl)

lemma heap_ok_get_error_log_obj: "heap_ok h \<Longrightarrow> heap_ok (snd (get_error_log_obj h))"
  by (auto simp: heap_ok_def get_error_log_obj_def ERROR_LOG_def)

text \<open>The heap model and the list of \<open>world\<close> record the same log.\<close>

lemma log_view_log_error_obj:
  assumes "heap_ok h"
  shows "log_view (log_error_obj ts m t d s h) =
     (let log1 = log_view h @ [\<lparr>e_timestamp = ts, e_model = m, e_error_type = t,
                                e_details = take 500 d, e_status_code = s\<rparr>]
      in if length log1 > 50 then tl log1 else log1)"
proof -
  have "map ((h_dicts h)(h_fresh h := e)) (h_lists h ERROR_LOG) = map (h_dicts h) (h_lists h ERROR_LOG)" for e
    using assms by (auto simp: heap_ok_def)
  then show ?thesis
    by (simp add: log_view_def log_error_obj_def Let_def map_tl del: map_eq_conv)
qed

lemma log_view_refines:
  assumes "heap_ok h" "log_view h = error_log w"
  shows "log_view (log_error_obj (now env (trace w)) m t d s h) = error_log (log_error env m t d s w)"
  using assms by (simp add: log_view_log_error_obj log_error_def Let_def)

lemma copy_independent:
  assumes "heap_ok h"
  shows "fst (get_error_log_obj h) \<noteq> ERROR_LOG
       \<and> h_lists (snd (get_error_log_obj h)) (fst (get_error_log_obj h)) = h_lists h ERROR_LOG
       \<and> log_view (snd (get_error_log_obj h)) = log_view h
       \<and> (\<forall>xs. h_lists (list_store (fst (get_error_log_obj h)) xs (snd (get_error_log_obj h))) ERROR_LOG
                  = h_lists h ERROR_LOG
              \<and> log_view (list_store (fst (get_error_log_obj h)) xs (snd (get_error_log_obj h))) = log_view h)"
  using assms by (auto simp: heap_ok_def get_error_log_obj_def list_store_def log_view_def)

text \<open>
  C6, as stated, fails for a change made to an entry through the copy: after one record,
  the list that \<^verbatim>\<open>get_error_log\<close> returns holds the very dict that the internal log holds,
  and setting that dict's \<open>details\<close> changes what the internal log contains.
\<close>

theorem copy_mutation_reaches_log:
  "log_view (snd (get_error_log_obj heap1)) = log_view heap1
   \<and> hd (h_lists (snd (get_error_log_obj heap1)) (fst (get_error_log_obj heap1)))
       \<in> set (h_lists (snd (get_error_log_obj heap1)) (fst (get_error_log_obj heap1)))
   \<and> log_view (dict_store (hd (h_lists (snd (get_error_log_obj heap1)) (fst (get_error_log_obj heap1))))
               \<lparr>e_timestamp = ustr ''t'', e_model = ustr ''glm'', e_error_type = ustr ''Timeout'',
                e_details = ustr ''changed'', e_status_code = None\<rparr>
               (snd (get_error_log_obj heap1)))
     \<noteq> log_view heap1"
  by (simp add: heap1_def heap0_def log_error_obj_def get_error_log_obj_def dict_store_def log_view_def
        ERROR_LOG_def Let_def ustr_def)

text \<open>
  C6, amended. From a log of at most 50 entries whose details have at most 500 characters
  (the empty log at start), after any sequence of records the log has at most 50 entries:
  the newest 50 of all, oldest first, so that 55 records into the empty log leave exactly
  the last 50 in insertion order; every stored \<open>details\<close> has at most 500 characters. The
  accessor returns a new list object with the same content, a shallow copy: whatever is
  done to that list itself leaves the internal list and the content of the log as they
  were. (The entries in it are the dicts of the internal log.)
\<close>

theorem diagnostics_log_bounded_fifo:
  assumes "length (error_log w) \<le> 50"
    and "\<forall>e\<in>set (error_log w). length (e_details e) \<le> 500"
    and "heap_ok h"
  shows "length (get_error_log (log_all env items w)) \<le> 50
       \<and> map entry_fields (get_error_log (log_all env items w))
           = slice_last 50 (map entry_fields (error_log w) @ map stored items)
       \<and> (error_log w = [] \<and> length items = 55 \<longrightarrow>
            map entry_fields (get_error_log (log_all env items w)) = map stored (drop 5 items))
       \<and> (\<forall>e\<in>set (get_error_log (log_all env items w)). length (e_details e) \<le> 500)
       \<and> fst (get_error_log_obj h) \<noteq> ERROR_LOG
       \<and> h_lists (snd (get_error_log_obj h)) (fst (get_error_log_obj h)) = h_lists h ERROR_LOG
       \<and> log_view (snd (get_error_log_obj h)) = log_view h
       \<and> (\<forall>xs. h_lists (list_store (fst (get_error_log_obj h)) xs (snd (get_error_log_obj h))) ERROR_LOG
                  = h_lists h ERROR_LOG
              \<and> log_view (list_store (fst (get_error_log_obj h)) xs (snd (get_error_log_obj h))) = log_view h)"
proof -
  have a: "length (get_error_log (log_all env items w)) \<le> 50"
    unfolding get_error_log_def by (rule log_all_length[OF assms(1)])
  have b: "map entry_fields (get_error_log (log_all env items w))
           = slice_last 50 (map entry_fields (error_log w) @ map stored items)"
    unfolding get_error_log_def by (rule log_all_fields[OF assms(1)])
  have c: "error_log w = [] \<and> length items = 55 \<longrightarrow>
            map entry_fields (get_error_log (log_all env items w)) = map stored (drop 5 items)"
    unfolding b by (auto simp: slice_last_def drop_map)
  have d: "\<forall>e\<in>set (get_error_log (log_all env items w)). length (e_details e) \<le> 500"
    unfolding get_error_log_def by (rule log_all_details[OF assms(1,2)])
  from a b c d copy_independent[OF assms(3)] show ?thesis
    by (intro conjI) simp_all
qed

theorem diagnostics_log_bounded_fifo_witness:
  "map entry_fields (get_error_log (log_all (answer_with 200 (Inr JNull)) (map demo_item [0..<55]) world0))
     = map stored (drop 5 (map demo_item [0..<55]))
   \<and> fst (get_error_log_obj heap0) \<noteq> ERROR_LOG"
proof -
  have h1: "length (error_log world0) \<le> 50"
    by (simp add: world0_def)
  have h2: "\<forall>e\<in>set (error_log world0). length (e_details e) \<le> 500"
    by (simp add: world0_def)
  have h3: "error_log world0 = [] \<and> length (map demo_item [0..<55]) = 55"
    by (simp add: world0_def)
  from diagnostics_log_bounded_fifo[OF h1 h2 heap_ok_heap0, of "answer_with 200 (Inr JNull)" "map demo_item [0..<55]"] h3
  show ?thesis
    by blast
qed

section \<open>Properties of verify\_with\_fallback\<close>

lemma try_primary_attempt:
  "try_primary cfg env sp um k errs w =
     (case attempt cfg env sp um k w of
        (Inl r, w1) \<Rightarrow> (Inl r, w1)
      | (Inr c, w1) \<Rightarrow> (Inr (errs @ [c]), w1))"
  by (auto simp: try_primary_def attempt_def Let_def split: prod.splits sum.splits outcome.splits)

lemma fallback_loop_attempt:
  "fallback_loop cfg env sp um primary (k # ks) errs w =
     (case attempt cfg env sp um k w of
        (Inl r, w1) \<Rightarrow> (Inl (with_fallback_info primary r), w1)
      | (Inr c, w1) \<Rightarrow> fallback_loop cfg env sp um primary ks (errs @ [c]) w1)"
  by (auto simp: attempt_def with_fallback_info_def Let_def split: prod.splits sum.splits outcome.splits)

lemma fallback_loop_all_fail:
  "fail_through cfg env sp um ks w = Some (cs, w') \<Longrightarrow>
   fallback_loop cfg env sp um primary ks errs w = (Inr (errs @ cs), w')"
proof (induction ks arbitrary: w errs cs)
  case Nil
  then show ?case by simp
next
  case (Cons k ks)
  from Cons.prems obtain c w1 cs' where
    a: "attempt cfg env sp um k w = (Inr c, w1)"
    and f: "fail_through cfg env sp um ks w1 = Some (cs', w')"
    and cs: "cs = c # cs'"
    by (auto split: prod.splits sum.splits option.splits)
  show ?case
    unfolding fallback_loop_attempt a using Cons.IH[OF f, of "errs @ [c]"] cs by simp
qed

lemma fallback_loop_first_success:
  "fail_through cfg env sp um before w = Some (cs, w2) \<Longrightarrow>
   attempt cfg env sp um k w2 = (Inl r, w3) \<Longrightarrow>
   fallback_loop cfg env sp um primary (before @ k # rest) errs w = (Inl (with_fallback_info primary r), w3)"
proof (induction before arbitrary: w errs cs)
  case Nil
  then show ?case by (simp add: fallback_loop_attempt del: fallback_loop.simps)
next
  case (Cons p before)
  from Cons.prems(1) obtain c w1 cs' where
    a: "attempt cfg env sp um p w = (Inr c, w1)"
    and f: "fail_through cfg env sp um before w1 = Some (cs', w2)"
    by (auto split: prod.splits sum.splits option.splits)
  show ?case
    using Cons.IH[OF f Cons.prems(2), of "errs @ [c]"]
    by (simp add: fallback_loop_attempt a del: fallback_loop.simps)
qed

lemma fail_through_models:
  "fail_through cfg env sp um ks w = Some (cs, w') \<Longrightarrow> map c_model cs = ks"
proof (induction ks arbitrary: w cs)
  case Nil
  then show ?case by simp
next
  case (Cons k ks)
  from Cons.prems obtain c w1 cs' where
    a: "attempt cfg env sp um k w = (Inr c, w1)"
    and f: "fail_through cfg env sp um ks w1 = Some (cs', w')"
    and cs: "cs = c # cs'"
    by (auto split: prod.splits sum.splits option.splits)
  from a have "c_model c = k"
    by (auto simp: attempt_def collect_exception_def collect_failure_def Let_def
             split: prod.splits sum.splits outcome.splits)
  with Cons.IH[OF f] cs show ?case by simp
qed

lemma verify_with_fallback_all_fail:
  assumes "fail_through cfg env sp um (primary # get_fallback_models cfg primary) w = Some (cs, w')"
  shows "verify_with_fallback cfg env sp um primary w =
           (AllFailed (all_failed env primary (get_fallback_models cfg primary) cs), w')"
proof -
  from assms obtain c w1 cs' where
    a: "attempt cfg env sp um primary w = (Inr c, w1)"
    and f: "fail_through cfg env sp um (get_fallback_models cfg primary) w1 = Some (cs', w')"
    and cs: "cs = c # cs'"
    by (auto split: prod.splits sum.splits option.splits)
  show ?thesis
    unfolding verify_with_fallback_def try_primary_attempt a
    using fallback_loop_all_fail[OF f, of primary "[c]"] cs
    by (simp add: Let_def)
qed

lemma verify_with_fallback_fallback_success:
  assumes "fail_through cfg env sp um (primary # before) w = Some (cs, w2)"
    and "attempt cfg env sp um k w2 = (Inl r, w3)"
    and "get_fallback_models cfg primary = before @ k # rest"
  shows "verify_with_fallback cfg env sp um primary w = (Served (with_fallback_info primary r), w3)"
proof -
  from assms(1) obtain c w1 cs' where
    a: "attempt cfg env sp um primary w = (Inr c, w1)"
    and f: "fail_through cfg env sp um before w1 = Some (cs', w2)"
    by (auto split: prod.splits sum.splits option.splits)
  show ?thesis
    unfolding verify_with_fallback_def try_primary_attempt a
    using fallback_loop_first_success[OF f assms(2), of primary rest "[c]"] assms(3)
    by (simp add: Let_def)
qed

lemma verify_with_fallback_primary_success:
  assumes "attempt cfg env sp um primary w = (Inl r, w1)"
  shows "verify_with_fallback cfg env sp um primary w = (Served r, w1)"
  unfolding verify_with_fallback_def try_primary_attempt assms by simp

lemma credential_hint_iff:
  "hint_credential \<in> set (recommend env cs) \<longleftrightarrow> (\<exists>c\<in>set cs. c_error_code c = Some (IntCode 401))"
proof -
  have i: "int_in_codes 401 (filter code_truthy (map c_error_code cs))
           \<longleftrightarrow> (\<exists>c\<in>set cs. c_error_code c = Some (IntCode 401))"
    by (force simp: int_in_codes_def list_ex_iff)
  have d: "hint_credential \<noteq> hint_rate_limit" "hint_credential \<noteq> hint_timeout"
    "hint_credential \<noteq> hint_connection" "hint_credential \<noteq> hint_status" "hint_credential \<noteq> hint_credits"
    by (simp_all add: hint_credential_def hint_rate_limit_def hint_timeout_def hint_connection_def
          hint_status_def hint_credits_def)
  show ?thesis
    unfolding recommend_def Let_def i[symmetric]
    using d by auto
qed

lemma same_state_refl: "same_state w w"
  by (simp add: same_state_def)

lemma same_state_trans: "same_state w w1 \<Longrightarrow> same_state w1 w2 \<Longrightarrow> same_state w w2"
  by (simp add: same_state_def)

lemma call_api_same: "same_state w (snd (call_api env self ms t mt w))"
  by (simp add: call_api_def same_state_def Let_def)

lemma retry_loop_same: "same_state w (snd (retry_loop cfg env self ms t mt a k le w))"
proof (induction k arbitrary: a le w)
  case 0
  then show ?case by (simp add: same_state_refl split: option.splits)
next
  case (Suc k)
  have s: "same_state w (w\<lparr>trace := tr\<rparr>)" for tr by (simp add: same_state_def)
  have s2: "same_state w (sleep d (w\<lparr>trace := tr\<rparr>))" for tr d by (simp add: same_state_def sleep_def)
  show ?case
    using Suc.IH s s2
    by (auto simp: call_api_def Let_def split: sum.splits exn.splits)
       (blast intro: same_state_trans)+
qed

lemma verify_code_try_same: "same_state w (snd (verify_code_try cfg env self sp um w))"
  using retry_loop_same[of w cfg env self "[(ustr ''system'', sp), (ustr ''user'', um)]"
          "DEFAULT_TEMPERATURE cfg" "DEFAULT_MAX_TOKENS cfg" 0 "nat (RETRY_ATTEMPTS cfg)" None]
  by (auto simp: verify_code_try_def call_api_with_retry_def Let_def split: prod.splits sum.splits)

lemma verify_code_Success_same:
  "verify_code cfg env self sp um w = (Success r, w') \<Longrightarrow> same_state w w'"
  using verify_code_try_same[of w cfg env self sp um]
  by (auto simp: verify_code_def Let_def split: prod.splits sum.splits exn.splits)

lemma verify_code_Failure_logged:
  "verify_code cfg env self sp um w = (Failure f, w') \<Longrightarrow>
   \<exists>ty sc w1. same_state w w1 \<and> w' = log_error env (p_model_key self) ty (f_error f) sc w1"
  using verify_code_try_same[of w cfg env self sp um]
  by (auto simp: verify_code_def Let_def split: prod.splits sum.splits exn.splits) blast+

lemma log_error_providers: "providers (log_error env m ty d sc w) = providers w"
  by (simp add: log_error_def Let_def)

lemma cache_ok_same: "same_state w w' \<Longrightarrow> cache_ok cfg w \<Longrightarrow> cache_ok cfg w'"
  by (simp add: same_state_def cache_ok_def)

lemma cache_ok_log_error: "cache_ok cfg w \<Longrightarrow> cache_ok cfg (log_error env m ty d sc w)"
  by (simp add: cache_ok_def log_error_providers)

lemma get_provider_Inr:
  "get_provider cfg k w = (Inr p, w1) \<Longrightarrow> cache_ok cfg w \<Longrightarrow>
     p_model_key p = k \<and> cache_ok cfg w1 \<and> error_log w1 = error_log w"
  using get_provider_cache_ok[of cfg w k]
  by (auto simp: get_provider_def ModelProvider_init_def cache_ok_def split: option.splits sum.splits if_splits)

lemma get_provider_Inl: "get_provider cfg k w = (Inl e, w1) \<Longrightarrow> w1 = w"
  by (auto simp: get_provider_def split: option.splits sum.splits)

lemma model_details_log_error:
  assumes "length (error_log w) \<le> 50"
  shows "map model_details (error_log (log_error env m ty d sc w)) =
           slice_last 50 (map model_details (error_log w) @ [(m, take 500 d)])"
  by (simp add: error_log_log_error[OF assms] map_slice_last model_details_def)

lemma length_log_error: "length (error_log w) \<le> 50 \<Longrightarrow> length (error_log (log_error env m ty d sc w)) \<le> 50"
  by (simp add: error_log_log_error length_slice_last)

lemma attempt_Inl:
  assumes "attempt cfg env sp um k w = (Inl r, w')" "cache_ok cfg w"
  shows "cache_ok cfg w' \<and> error_log w' = error_log w"
proof -
  from assms(1) obtain p w1 where g: "get_provider cfg k w = (Inr p, w1)"
    and v: "verify_code cfg env p sp um w1 = (Success r, w')"
    by (auto simp: attempt_def Let_def split: prod.splits sum.splits outcome.splits)
  from get_provider_Inr[OF g assms(2)] verify_code_Success_same[OF v]
  show ?thesis by (auto simp: same_state_def intro: cache_ok_same[of w1 w'])
qed

lemma attempt_Inr:
  assumes "attempt cfg env sp um k w = (Inr c, w')" "cache_ok cfg w" "length (error_log w) \<le> 50"
  shows "c_model c = k \<and> cache_ok cfg w' \<and> length (error_log w') \<le> 50
       \<and> map model_details (error_log w') =
           slice_last 50 (map model_details (error_log w) @ [collected_details c])"
proof (cases "fst (get_provider cfg k w)")
  case (Inl e)
  then have g: "get_provider cfg k w = (Inl e, w)"
    using get_provider_Inl[of cfg k w e "snd (get_provider cfg k w)"] by (cases "get_provider cfg k w") auto
  from assms(1) have c: "c = collect_exception k (type_name e @ ustr '': '' @ str_exn e)"
    and w': "w' = log_error env k (ustr ''Provider Error'') (type_name e @ ustr '': '' @ str_exn e) None w"
    by (auto simp: attempt_def g Let_def)
  show ?thesis
    unfolding c w'
    using assms(2,3)
    by (simp add: collect_exception_def collected_details_def cache_ok_log_error length_log_error
          model_details_log_error)
next
  case (Inr p)
  then obtain w1 where g: "get_provider cfg k w = (Inr p, w1)"
    by (cases "get_provider cfg k w") auto
  from assms(1) obtain f where v: "verify_code cfg env p sp um w1 = (Failure f, w')"
    and c: "c = collect_failure k f"
    by (auto simp: attempt_def g Let_def split: prod.splits outcome.splits)
  from get_provider_Inr[OF g assms(2)] have pk: "p_model_key p = k" and ok1: "cache_ok cfg w1"
    and el: "error_log w1 = error_log w" by simp_all
  from verify_code_Failure_logged[OF v] obtain ty sc w2 where s: "same_state w1 w2"
    and w': "w' = log_error env (p_model_key p) ty (f_error f) sc w2" by blast
  have ok2: "cache_ok cfg w2" using cache_ok_same[OF s ok1] .
  have el2: "error_log w2 = error_log w" using s el by (simp add: same_state_def)
  have l2: "length (error_log w2) \<le> 50" using el2 assms(3) by simp
  show ?thesis
    unfolding c w' pk
    using ok2 l2
    by (simp add: collect_failure_def collected_details_def cache_ok_log_error length_log_error
          model_details_log_error el2)
qed

lemma fail_through_logged:
  assumes "fail_through cfg env sp um ks w = Some (cs, w')" "cache_ok cfg w" "length (error_log w) \<le> 50"
  shows "map c_model cs = ks \<and> cache_ok cfg w' \<and> length (error_log w') \<le> 50
       \<and> map model_details (error_log w') =
           slice_last 50 (map model_details (error_log w) @ map collected_details cs)"
  using assms
proof (induction ks arbitrary: w cs)
  case Nil
  then show ?case by (simp add: slice_last_id)
next
  case (Cons k ks)
  from Cons.prems(1) obtain c w1 cs' where
    a: "attempt cfg env sp um k w = (Inr c, w1)"
    and f: "fail_through cfg env sp um ks w1 = Some (cs', w')"
    and cs: "cs = c # cs'"
    by (auto split: prod.splits sum.splits option.splits)
  from attempt_Inr[OF a Cons.prems(2,3)] have ck: "c_model c = k" and ok1: "cache_ok cfg w1"
    and l1: "length (error_log w1) \<le> 50"
    and m1: "map model_details (error_log w1) =
           slice_last 50 (map model_details (error_log w) @ [collected_details c])" by simp_all
  from Cons.IH[OF f ok1 l1] show ?case
    unfolding cs m1 using ck by (simp add: slice_last_slice_last)
qed

lemma fail_through_split:
  "fail_through cfg env sp um ks w = None \<Longrightarrow>
   \<exists>before k rest cs w2 r w3. ks = before @ k # rest
      \<and> fail_through cfg env sp um before w = Some (cs, w2)
      \<and> attempt cfg env sp um k w2 = (Inl r, w3)"
proof (induction ks arbitrary: w)
  case Nil
  then show ?case by simp
next
  case (Cons k ks)
  show ?case
  proof (cases "attempt cfg env sp um k w")
    case (Pair a w1)
    show ?thesis
    proof (cases a)
      case (Inl r)
      with Pair have "attempt cfg env sp um k w = (Inl r, w1)" by simp
      then have "k # ks = [] @ k # ks \<and> fail_through cfg env sp um [] w = Some ([], w)
          \<and> attempt cfg env sp um k w = (Inl r, w1)" by simp
      then show ?thesis by blast
    next
      case (Inr c)
      with Pair have a: "attempt cfg env sp um k w = (Inr c, w1)" by simp
      with Cons.prems have "fail_through cfg env sp um ks w1 = None"
        by (auto split: option.splits)
      from Cons.IH[OF this] obtain before k' rest cs w2 r w3 where
        ks: "ks = before @ k' # rest"
        and f: "fail_through cfg env sp um before w1 = Some (cs, w2)"
        and s: "attempt cfg env sp um k' w2 = (Inl r, w3)" by blast
      have "k # ks = (k # before) @ k' # rest \<and> fail_through cfg env sp um (k # before) w = Some (c # cs, w2)
          \<and> attempt cfg env sp um k' w2 = (Inl r, w3)"
        using ks f s a by simp
      then show ?thesis by blast
    qed
  qed
qed

lemma rq_model_build_request: "rq_model (build_request self ms t mt) = model_id (p_config self)"
  by (simp add: build_request_def Let_def)

lemma demo_glm_fails:
  "p_config self = demo_model \<Longrightarrow>
   \<exists>f w'. verify_code demo_config2 answer_by_model self [] [] w = (Failure f, w')"
  by (simp add: demo_config2_def answer_by_model_def demo_model_def verify_code_def verify_code_try_def
        call_api_with_retry_def call_api_def read_response_def rq_model_build_request
        Let_def numeral_3_eq_3 ustr_def)

lemma demo_kimi_succeeds:
  "p_config self = demo_model2 \<Longrightarrow>
   \<exists>r w'. verify_code demo_config2 answer_by_model self [] [] w = (Success r, w')
          \<and> s_model_key r = p_model_key self \<and> s_fallback_used r = None"
  by (simp add: demo_config2_def answer_by_model_def demo_model2_def verify_code_def verify_code_try_def
        call_api_with_retry_def call_api_def read_response_def rq_model_build_request
        good_body_def extract_verdict_def bind_exn_def calculate_cost_def
        Let_def numeral_3_eq_3 ustr_def)

lemma get_provider_usable:
  assumes "usable cfg k" "cache_ok cfg w"
  shows "\<exists>p w1. get_provider cfg k w = (Inr p, w1) \<and> p_model_key p = k
           \<and> MODELS cfg k = Some (p_config p)"
proof (cases "providers w k")
  case None
  from ModelProvider_init_usable[OF assms(1), of "next_id w"] None show ?thesis
    by (auto simp: get_provider_def)
next
  case (Some p)
  with assms(2) show ?thesis
    by (auto simp: get_provider_def cache_ok_def)
qed

lemma demo_fallback:
  "\<exists>cs w2 r w3.
      fail_through demo_config2 answer_by_model [] [] [ustr ''glm''] world0 = Some (cs, w2)
    \<and> attempt demo_config2 answer_by_model [] [] (ustr ''kimi'') w2 = (Inl r, w3)
    \<and> s_model_key r = ustr ''kimi'' \<and> s_fallback_used r = None"
proof -
  let ?cfg = demo_config2 and ?env = answer_by_model
  have m1: "MODELS ?cfg (ustr ''glm'') = Some demo_model"
    and m2: "MODELS ?cfg (ustr ''kimi'') = Some demo_model2"
    by (simp_all add: demo_config2_def ustr_def)
  have u1: "usable ?cfg (ustr ''glm'')" and u2: "usable ?cfg (ustr ''kimi'')"
    by (simp_all add: usable_def m1 m2 demo_model_def demo_model2_def)
  have l0: "length (error_log world0) \<le> 50" by (simp add: world0_def)
  from get_provider_usable[OF u1 cache_ok_world0] obtain p w1 where
    g1: "get_provider ?cfg (ustr ''glm'') world0 = (Inr p, w1)"
    and c1: "MODELS ?cfg (ustr ''glm'') = Some (p_config p)"
    by blast
  from c1 m1 have pc: "p_config p = demo_model" by simp
  from demo_glm_fails[OF pc, of w1] obtain f w2 where
    v1: "verify_code ?cfg ?env p [] [] w1 = (Failure f, w2)"
    by blast
  have a1: "attempt ?cfg ?env [] [] (ustr ''glm'') world0 = (Inr (collect_failure (ustr ''glm'') f), w2)"
    by (simp add: attempt_def g1 v1)
  have f1: "fail_through ?cfg ?env [] [] [ustr ''glm''] world0 = Some ([collect_failure (ustr ''glm'') f], w2)"
    by (simp add: a1)
  from fail_through_logged[OF f1 cache_ok_world0 l0] have ok2: "cache_ok ?cfg w2"
    by simp
  from get_provider_usable[OF u2 ok2] obtain p2 w3 where
    g2: "get_provider ?cfg (ustr ''kimi'') w2 = (Inr p2, w3)"
    and k2: "p_model_key p2 = ustr ''kimi''"
    and c2: "MODELS ?cfg (ustr ''kimi'') = Some (p_config p2)"
    by blast
  from c2 m2 have pc2: "p_config p2 = demo_model2" by simp
  from demo_kimi_succeeds[OF pc2, of w3] obtain r w4 where
    v2: "verify_code ?cfg ?env p2 [] [] w3 = (Success r, w4)"
    and r: "s_model_key r = p_model_key p2" "s_fallback_used r = None"
    by blast
  have a2: "attempt ?cfg ?env [] [] (ustr ''kimi'') w2 = (Inl r, w4)"
    by (simp add: attempt_def g2 v2)
  from f1 a2 r k2 show ?thesis
    by (intro exI[of _ "[collect_failure (ustr ''glm'') f]"] exI[of _ w2] exI[of _ r] exI[of _ w4]) simp
qed

lemma demo_unknown:
  "get_provider demo_config (ustr ''nope'') world0
     = (Inl (PyException (ustr ''ValueError'') (ustr ''Unknown model: nope'')), world0)"
  by (simp add: get_provider_def ModelProvider_init_def demo_config_def world0_def ValueError_def ustr_def)

lemma demo_all_fail:
  "\<exists>cs w'. fail_through demo_config2 (answer_with 401 (Inr JNull)) [] []
              (ustr ''glm'' # get_fallback_models demo_config2 (ustr ''glm'')) world0 = Some (cs, w')
           \<and> map c_error_code cs = [Some (IntCode 401), Some (IntCode 401)]"
  by (simp add: demo_config2_def answer_with_def world0_def attempt_def get_provider_def
        ModelProvider_init_def demo_model_def demo_model2_def verify_code_def verify_code_try_def
        call_api_with_retry_def call_api_def read_response_def log_error_def collect_failure_def
        Let_def numeral_3_eq_3 ustr_def)

text \<open>
  C2. Let the primary model and then every model of the fallback list, tried in that order,
  fail. Then \<^verbatim>\<open>verify_with_fallback\<close> returns the all-failed result in the world the last
  attempt leaves; its \<open>errors\<close> are the collected failures, exactly one for each attempted
  model: the primary first, then the fallback models in the order of the list; and its
  recommendations contain the credential hint if and only if some collected failure
  carries the error code 401.
\<close>

theorem all_models_failed:
  assumes "fail_through cfg env sp um (primary # get_fallback_models cfg primary) w = Some (cs, w')"
  shows "\<exists>a. verify_with_fallback cfg env sp um primary w = (AllFailed a, w')
           \<and> a_errors a = cs
           \<and> map c_model (a_errors a) = primary # get_fallback_models cfg primary
           \<and> (hint_credential \<in> set (a_recommendations a)
                \<longleftrightarrow> (\<exists>c\<in>set (a_errors a). c_error_code c = Some (IntCode 401)))"
  using verify_with_fallback_all_fail[OF assms] fail_through_models[OF assms]
  by (simp add: all_failed_def credential_hint_iff)

theorem all_models_failed_witness:
  "\<exists>a w'. verify_with_fallback demo_config2 (answer_with 401 (Inr JNull)) [] [] (ustr ''glm'') world0
             = (AllFailed a, w')
          \<and> map c_model (a_errors a) = [ustr ''glm'', ustr ''kimi'']
          \<and> hint_credential \<in> set (a_recommendations a)"
proof -
  from demo_all_fail obtain cs w' where
    f: "fail_through demo_config2 (answer_with 401 (Inr JNull)) [] []
          (ustr ''glm'' # get_fallback_models demo_config2 (ustr ''glm'')) world0 = Some (cs, w')"
    and c: "map c_error_code cs = [Some (IntCode 401), Some (IntCode 401)]"
    by (elim exE conjE)
  from c have e: "\<exists>c\<in>set cs. c_error_code c = Some (IntCode 401)"
    by (cases cs) auto
  have g: "ustr ''glm'' # get_fallback_models demo_config2 (ustr ''glm'') = [ustr ''glm'', ustr ''kimi'']"
    by (simp add: demo_config2_def ustr_def)
  from all_models_failed[OF f] e g show ?thesis
    by auto
qed

text \<open>
  C3. Let the primary model fail, let the fallback models before \<open>k\<close> fail, and let \<open>k\<close>, tried
  in the world they leave, succeed with result \<open>r\<close>. Then \<^verbatim>\<open>verify_with_fallback\<close> returns \<open>r\<close>
  with \<open>fallback_used\<close> set to true and \<open>primary_model_failed\<close> set to the primary's key, in
  the very world that the attempt of \<open>k\<close> leaves: whatever follows \<open>k\<close> in the fallback list,
  nothing is done for it.
\<close>

theorem first_fallback_success:
  assumes "fail_through cfg env sp um (primary # before) w = Some (cs, w2)"
    and "attempt cfg env sp um k w2 = (Inl r, w3)"
    and "get_fallback_models cfg primary = before @ k # rest"
  shows "verify_with_fallback cfg env sp um primary w =
           (Served (r\<lparr>s_fallback_used := Some True, s_primary_model_failed := Some primary\<rparr>), w3)"
  using verify_with_fallback_fallback_success[OF assms]
  by (simp add: with_fallback_info_def)

theorem first_fallback_success_witness:
  "\<exists>r w'. verify_with_fallback demo_config2 answer_by_model [] [] (ustr ''glm'') world0 = (Served r, w')
         \<and> s_model_key r = ustr ''kimi''
         \<and> s_fallback_used r = Some True
         \<and> s_primary_model_failed r = Some (ustr ''glm'')"
proof -
  from demo_fallback obtain cs w2 r w3 where
    f: "fail_through demo_config2 answer_by_model [] [] [ustr ''glm''] world0 = Some (cs, w2)"
    and a: "attempt demo_config2 answer_by_model [] [] (ustr ''kimi'') w2 = (Inl r, w3)"
    and k: "s_model_key r = ustr ''kimi''"
    by (elim exE conjE)
  have g: "get_fallback_models demo_config2 (ustr ''glm'') = [] @ ustr ''kimi'' # []"
    by (simp add: demo_config2_def ustr_def)
  from first_fallback_success[OF f a g] k show ?thesis
    by simp
qed

text \<open>
  C4. From a world whose cache is in order and whose log has at most 50 entries,
  \<^verbatim>\<open>verify_with_fallback\<close> always returns, for every outside and every request: either the
  all-failed result, with one collected failure for the primary and for each fallback
  model in order, or a successful result of the first model that succeeds, after the
  failures of the models before it. In both cases the diagnostics log has received one
  entry for each of these failures, in order, with the model and the error text of the
  failure (the log keeps its newest 50). An exception raised while a provider is resolved
  is caught: it becomes the collected failure of that model, named after its type, and is
  logged as a \<open>Provider Error\<close>.
\<close>

theorem verify_with_fallback_never_raises:
  assumes "cache_ok cfg w" and "length (error_log w) \<le> 50"
  shows "((\<exists>cs w'. verify_with_fallback cfg env sp um primary w =
                     (AllFailed (all_failed env primary (get_fallback_models cfg primary) cs), w')
            \<and> map c_model cs = primary # get_fallback_models cfg primary
            \<and> map model_details (error_log w') =
                slice_last 50 (map model_details (error_log w) @ map collected_details cs))
        \<or> (\<exists>before k rest cs r w'. primary # get_fallback_models cfg primary = before @ k # rest
            \<and> map c_model cs = before
            \<and> verify_with_fallback cfg env sp um primary w =
                 (Served (if before = [] then r else with_fallback_info primary r), w')
            \<and> map model_details (error_log w') =
                slice_last 50 (map model_details (error_log w) @ map collected_details cs)))
       \<and> (\<forall>k w1 e w2. get_provider cfg k w1 = (Inl e, w2) \<longrightarrow>
             attempt cfg env sp um k w1 =
               (Inr \<lparr>c_model = k, c_error = type_name e @ ustr '': '' @ str_exn e, c_error_code = None\<rparr>,
                log_error env k (ustr ''Provider Error'') (type_name e @ ustr '': '' @ str_exn e) None w2))"
proof (intro conjI allI impI)
  let ?ms = "primary # get_fallback_models cfg primary"
  show "(\<exists>cs w'. verify_with_fallback cfg env sp um primary w =
                     (AllFailed (all_failed env primary (get_fallback_models cfg primary) cs), w')
            \<and> map c_model cs = primary # get_fallback_models cfg primary
            \<and> map model_details (error_log w') =
                slice_last 50 (map model_details (error_log w) @ map collected_details cs))
        \<or> (\<exists>before k rest cs r w'. primary # get_fallback_models cfg primary = before @ k # rest
            \<and> map c_model cs = before
            \<and> verify_with_fallback cfg env sp um primary w =
                 (Served (if before = [] then r else with_fallback_info primary r), w')
            \<and> map model_details (error_log w') =
                slice_last 50 (map model_details (error_log w) @ map collected_details cs))"
  proof (cases "fail_through cfg env sp um ?ms w")
    case (Some a)
    then obtain cs w' where f: "fail_through cfg env sp um ?ms w = Some (cs, w')"
      by (cases a) auto
    from fail_through_logged[OF f assms] have m: "map c_model cs = ?ms"
      and lg: "map model_details (error_log w') =
                slice_last 50 (map model_details (error_log w) @ map collected_details cs)"
      by simp_all
    show ?thesis
      by (rule disjI1, rule exI[of _ cs], rule exI[of _ w'])
         (simp only: verify_with_fallback_all_fail[OF f] m lg simp_thms)
  next
    case None
    from fail_through_split[OF None] obtain before k rest cs w2 r w3 where
      ms: "?ms = before @ k # rest"
      and f: "fail_through cfg env sp um before w = Some (cs, w2)"
      and a: "attempt cfg env sp um k w2 = (Inl r, w3)"
      by blast
    from fail_through_logged[OF f assms] have m: "map c_model cs = before"
      and ok: "cache_ok cfg w2"
      and lg: "map model_details (error_log w2) =
                slice_last 50 (map model_details (error_log w) @ map collected_details cs)"
      by simp_all
    from attempt_Inl[OF a ok] have e: "error_log w3 = error_log w2" by simp
    have v: "verify_with_fallback cfg env sp um primary w =
                 (Served (if before = [] then r else with_fallback_info primary r), w3)"
    proof (cases before)
      case Nil
      with ms f a have "attempt cfg env sp um primary w = (Inl r, w3)" by simp
      from verify_with_fallback_primary_success[OF this] Nil show ?thesis by simp
    next
      case (Cons b bs)
      with ms have b: "b = primary" and g: "get_fallback_models cfg primary = bs @ k # rest"
        by auto
      from f Cons b have f': "fail_through cfg env sp um (primary # bs) w = Some (cs, w2)" by simp
      from verify_with_fallback_fallback_success[OF f' a g] Cons show ?thesis by simp
    qed
    have lg3: "map model_details (error_log w3) =
                slice_last 50 (map model_details (error_log w) @ map collected_details cs)"
      using lg e by simp
    show ?thesis
      by (rule disjI2, rule exI[of _ before], rule exI[of _ k], rule exI[of _ rest],
          rule exI[of _ cs], rule exI[of _ r], rule exI[of _ w3])
         (simp only: ms m v lg3 simp_thms)
  qed
next
  fix k w1 e w2
  assume g: "get_provider cfg k w1 = (Inl e, w2)"
  then show "attempt cfg env sp um k w1 =
               (Inr \<lparr>c_model = k, c_error = type_name e @ ustr '': '' @ str_exn e, c_error_code = None\<rparr>,
                log_error env k (ustr ''Provider Error'') (type_name e @ ustr '': '' @ str_exn e) None w2)"
    by (simp add: attempt_def collect_exception_def Let_def)
qed

theorem verify_with_fallback_never_raises_witness:
  "attempt demo_config (answer_with 200 (Inr good_body)) [] [] (ustr ''nope'') world0 =
     (Inr \<lparr>c_model = ustr ''nope'',
           c_error = ustr ''ValueError'' @ ustr '': '' @ ustr ''Unknown model: nope'',
           c_error_code = None\<rparr>,
      log_error (answer_with 200 (Inr good_body)) (ustr ''nope'') (ustr ''Provider Error'')
        (ustr ''ValueError'' @ ustr '': '' @ ustr ''Unknown model: nope'') None world0)"
proof -
  have l0: "length (error_log world0) \<le> 50" by (simp add: world0_def)
  from verify_with_fallback_never_raises[where cfg = demo_config and env = "answer_with 200 (Inr good_body)"
          and sp = "[]" and um = "[]" and primary = "ustr ''nope''", OF cache_ok_world0 l0]
  have "\<forall>k w1 e w2. get_provider demo_config k w1 = (Inl e, w2) \<longrightarrow>
             attempt demo_config (answer_with 200 (Inr good_body)) [] [] k w1 =
               (Inr \<lparr>c_model = k, c_error = type_name e @ ustr '': '' @ str_exn e, c_error_code = None\<rparr>,
                log_error (answer_with 200 (Inr good_body)) k (ustr ''Provider Error'')
                  (type_name e @ ustr '': '' @ str_exn e) None w2)"
    by (rule conjunct2)
  from this[rule_format, OF demo_unknown] show ?thesis
    by simp
qed

end
